theory Spec2Isabelle
  imports Complex_Main "HOL-Library.Word"
begin

section \<open>Configuration and errors\<close>

text \<open>
  The command-line flags of \<^verbatim>\<open>cifar10.py\<close> (lines 53--72), one field per
  \<^verbatim>\<open>DEFINE_*\<close> call. Python integers are unbounded, so the integer flags are
  \<open>int\<close>; float flags are read as the real numbers they denote.
\<close>

record flags =
  batch_size :: int
  data_dir :: string
  use_fp16 :: bool
  bn_momentum :: real
  wd :: real
  depth :: int
  growth_rate :: int
  dropout_rate :: real
  lr_boundaries :: string
  lr_values :: string

text \<open>
  The exceptions the code can raise: \<open>ValueError\<close> (static shape errors while the graph
  is built, a weight decay or dropout rate the library refuses, a missing data
  directory, an unreadable number), \<open>IndexError\<close> (reading dimension 3 of a shape of
  lower rank), \<open>ZeroDivisionError\<close> (line 360 with a batch size of zero),
  \<open>OverflowError\<close> (an integer that does not fit the 64-bit tensor it is converted to),
  \<open>AssertionError\<close> (the \<^verbatim>\<open>assert\<close> of line 367) and \<open>InvalidArgumentError\<close> (raised by
  an op when the graph runs).
\<close>

datatype error =
    ValueError
  | IndexError
  | ZeroDivisionError
  | OverflowError
  | AssertionError
  | InvalidArgumentError

text \<open>
  Modelled from the spec: the constant \<^verbatim>\<open>cifar10_input.NUM_CLASSES\<close>, defined in the
  module \<^verbatim>\<open>cifar10_input\<close> that line 76 reads it from; the specification fixes it to 10.
\<close>

definition NUM_CLASSES :: int where
  "NUM_CLASSES = 10"

section \<open>Tensors of the inference graph\<close>

text \<open>
  The functions of the source do not compute numbers: they add operations to a dataflow
  graph, and the library checks static shapes as each operation is added. A tensor is
  modelled by its static shape (all dimensions known) and by the expression that
  produces it. Each constructor of \<open>node\<close> is one library call of the source, with the
  arguments the source passes; kernels are drawn at random when the graph is initialised
  and are not part of the model.

  \<^item> \<open>Conv2D x k s f\<close>: \<^verbatim>\<open>tf.layers.conv2d\<close>, kernel size \<open>k\<close>, stride \<open>s\<close>, \<open>f\<close> filters,
    padding \<^verbatim>\<open>SAME\<close>, no bias;
  \<^item> \<open>BatchNormalization x m t\<close>: momentum \<open>m\<close>, training flag \<open>t\<close>;
  \<^item> \<open>Dropout x r t\<close>: rate \<open>r\<close>, training flag \<open>t\<close>;
  \<^item> \<open>Concat x y\<close>: \<^verbatim>\<open>tf.concat([x, y], axis=3)\<close>, the channels of \<open>x\<close> first;
  \<^item> \<open>AveragePooling2D x\<close>: pool size 2, strides 2, padding \<^verbatim>\<open>valid\<close>;
  \<^item> \<open>ReduceMean x\<close>: \<^verbatim>\<open>tf.reduce_mean(x, axis=[1, 2])\<close>;
  \<^item> \<open>Dense x u\<close>: \<^verbatim>\<open>tf.layers.dense\<close> with \<open>u\<close> units and a bias;
  \<^item> \<open>Cast x\<close>: \<^verbatim>\<open>tf.cast(x, tf.float16)\<close>.
\<close>

datatype node =
    Placeholder
  | Conv2D node int int int
  | BatchNormalization node real bool
  | Relu node
  | Dropout node real bool
  | Concat node node
  | AveragePooling2D node
  | ReduceMean node
  | Dense node int
  | Cast node

record tensor =
  shape :: "nat list"
  node :: node

subsection \<open>Shape rules of the library operations\<close>

text \<open>
  Output size of a convolution with padding \<^verbatim>\<open>SAME\<close>: \<open>ceil(n / stride)\<close>.
\<close>

definition same_size :: "nat \<Rightarrow> int \<Rightarrow> nat" where
  "same_size n stride = (n + nat stride - 1) div nat stride"

text \<open>
  Output size of a pooling window with padding \<^verbatim>\<open>valid\<close>:
  \<open>floor((n - pool) / stride) + 1\<close>; the library rejects an input smaller than the
  window (the subtraction would give a negative dimension).
\<close>

definition valid_size :: "nat \<Rightarrow> nat \<Rightarrow> nat \<Rightarrow> error + nat" where
  "valid_size n pool stride =
     (if n < pool then Inl ValueError else Inr ((n - pool) div stride + 1))"

fun concat_shape :: "nat list \<Rightarrow> nat list \<Rightarrow> error + nat list" where
  "concat_shape [b1, h1, w1, c1] [b2, h2, w2, c2] =
     (if b1 = b2 \<and> h1 = h2 \<and> w1 = w2 then Inr [b1, h1, w1, c1 + c2] else Inl ValueError)"
| "concat_shape _ _ = Inl ValueError"

definition concat :: "tensor \<Rightarrow> tensor \<Rightarrow> error + tensor" where
  "concat x y =
     (case concat_shape (shape x) (shape y) of
        Inl e \<Rightarrow> Inl e
      | Inr s \<Rightarrow> Inr \<lparr>shape = s, node = Concat (node x) (node y)\<rparr>)"

fun pool_shape :: "nat list \<Rightarrow> error + nat list" where
  "pool_shape [b, h, w, c] =
     (case valid_size h 2 2 of
        Inl e \<Rightarrow> Inl e
      | Inr h' \<Rightarrow>
          (case valid_size w 2 2 of
             Inl e \<Rightarrow> Inl e
           | Inr w' \<Rightarrow> Inr [b, h', w', c]))"
| "pool_shape _ = Inl ValueError"

definition average_pooling2d :: "tensor \<Rightarrow> error + tensor" where
  "average_pooling2d x =
     (case pool_shape (shape x) of
        Inl e \<Rightarrow> Inl e
      | Inr s \<Rightarrow> Inr \<lparr>shape = s, node = AveragePooling2D (node x)\<rparr>)"

text \<open>
  Batch normalisation, the rectifier and dropout keep the shape of their input.
  \<^verbatim>\<open>tf.layers.dropout\<close> in training mode keeps each element with probability
  \<open>1 - rate\<close>, and the library refuses a rate outside \<open>[0, 1)\<close> there; in evaluation
  mode it is the identity and the rate is not looked at.
\<close>

definition batch_normalization :: "flags \<Rightarrow> tensor \<Rightarrow> bool \<Rightarrow> tensor" where
  "batch_normalization FLAGS features training =
     \<lparr>shape = shape features,
      node = BatchNormalization (node features) (bn_momentum FLAGS) training\<rparr>"

definition relu :: "tensor \<Rightarrow> tensor" where
  "relu x = \<lparr>shape = shape x, node = Relu (node x)\<rparr>"

definition dropout :: "flags \<Rightarrow> tensor \<Rightarrow> bool \<Rightarrow> error + tensor" where
  "dropout FLAGS x training =
     (if training \<and> \<not> (0 \<le> dropout_rate FLAGS \<and> dropout_rate FLAGS < 1)
      then Inl ValueError
      else Inr \<lparr>shape = shape x, node = Dropout (node x) (dropout_rate FLAGS) training\<rparr>)"

text \<open>
  \<^verbatim>\<open>tf.contrib.layers.l2_regularizer(FLAGS.wd)\<close> (lines 167, 178, 198 and 280): the
  library refuses a negative scale.
\<close>

definition l2_regularizer :: "flags \<Rightarrow> error + real" where
  "l2_regularizer FLAGS = (if wd FLAGS < 0 then Inl ValueError else Inr (wd FLAGS))"

fun dense_shape :: "nat list \<Rightarrow> nat \<Rightarrow> error + nat list" where
  "dense_shape (b # d # ds) units = Inr (butlast (b # d # ds) @ [units])"
| "dense_shape _ units = Inl ValueError"

definition dense :: "tensor \<Rightarrow> int \<Rightarrow> error + tensor" where
  "dense x units =
     (if units < 0 then Inl ValueError
      else case dense_shape (shape x) (nat units) of
             Inl e \<Rightarrow> Inl e
           | Inr s \<Rightarrow> Inr \<lparr>shape = s, node = Dense (node x) units\<rparr>)"

section \<open>The layers of the network\<close>

text \<open>
  \<^verbatim>\<open>conv2d\<close> (lines 164--171): the regulariser is made first, then the convolution
  without bias on a 4-D feature map. The library refuses a negative filter count, and a
  kernel size or stride that is not positive (the code only ever passes 3 and 1).
\<close>

fun conv2d_shape :: "nat list \<Rightarrow> int \<Rightarrow> int \<Rightarrow> error + nat list" where
  "conv2d_shape [b, h, w, c] stride out_channel =
     Inr [b, same_size h stride, same_size w stride, nat out_channel]"
| "conv2d_shape _ stride out_channel = Inl ValueError"

definition conv2d :: "flags \<Rightarrow> tensor \<Rightarrow> int \<Rightarrow> int \<Rightarrow> int \<Rightarrow> error + tensor" where
  "conv2d FLAGS features kernel_size stride out_channel =
     (case l2_regularizer FLAGS of
        Inl e \<Rightarrow> Inl e
      | Inr regularizer \<Rightarrow>
          if kernel_size \<le> 0 \<or> stride \<le> 0 \<or> out_channel < 0 then Inl ValueError
          else case conv2d_shape (shape features) stride out_channel of
                 Inl e \<Rightarrow> Inl e
               | Inr s \<Rightarrow>
                   Inr \<lparr>shape = s,
                        node = Conv2D (node features) kernel_size stride out_channel\<rparr>)"

text \<open>
  \<^verbatim>\<open>unit_layer\<close> (lines 212--218): normalise, rectify, convolve 3x3 with stride 1, drop.
\<close>

definition unit_layer :: "flags \<Rightarrow> tensor \<Rightarrow> int \<Rightarrow> bool \<Rightarrow> error + tensor" where
  "unit_layer FLAGS features out_channel training =
     (let bn = batch_normalization FLAGS features training;
          activate = relu bn
      in case conv2d FLAGS activate 3 1 out_channel of
           Inl e \<Rightarrow> Inl e
         | Inr conv \<Rightarrow> dropout FLAGS conv training)"

text \<open>
  \<^verbatim>\<open>block\<close> (lines 221--226): \<^verbatim>\<open>for i in range(depth)\<close> runs \<open>nat depth\<close> times (not at
  all for a depth that is zero or negative); each round appends the unit's output to
  the running feature map.
\<close>

fun block_loop :: "flags \<Rightarrow> int \<Rightarrow> bool \<Rightarrow> nat \<Rightarrow> tensor \<Rightarrow> error + tensor" where
  "block_loop FLAGS growth training 0 features = Inr features"
| "block_loop FLAGS growth training (Suc n) features =
     (case unit_layer FLAGS features growth training of
        Inl e \<Rightarrow> Inl e
      | Inr unit \<Rightarrow>
          (case concat features unit of
             Inl e \<Rightarrow> Inl e
           | Inr features' \<Rightarrow> block_loop FLAGS growth training n features'))"

definition block :: "flags \<Rightarrow> tensor \<Rightarrow> int \<Rightarrow> int \<Rightarrow> bool \<Rightarrow> error + tensor" where
  "block FLAGS features block_depth growth training =
     block_loop FLAGS growth training (nat block_depth) features"

text \<open>
  \<^verbatim>\<open>transition\<close> (lines 229--234): \<^verbatim>\<open>features.get_shape()[3].value\<close> raises
  \<open>IndexError\<close> on a shape of rank below 4; then a unit layer with as many output
  channels as the input has, then the 2x2 average pooling.
\<close>

definition num_channel :: "tensor \<Rightarrow> error + nat" where
  "num_channel features =
     (if length (shape features) < 4 then Inl IndexError else Inr (shape features ! 3))"

definition transition :: "flags \<Rightarrow> tensor \<Rightarrow> bool \<Rightarrow> error + tensor" where
  "transition FLAGS features training =
     (case num_channel features of
        Inl e \<Rightarrow> Inl e
      | Inr c \<Rightarrow>
          (case unit_layer FLAGS features (int c) training of
             Inl e \<Rightarrow> Inl e
           | Inr unit \<Rightarrow> average_pooling2d unit))"

text \<open>
  \<^verbatim>\<open>global_average_pooling2d\<close> (lines 237--238): the mean over axes 1 and 2, which
  the shape must have.
\<close>

fun reduce_shape :: "nat list \<Rightarrow> error + nat list" where
  "reduce_shape (b # h # w # rest) = Inr (b # rest)"
| "reduce_shape _ = Inl ValueError"

definition global_average_pooling2d :: "tensor \<Rightarrow> error + tensor" where
  "global_average_pooling2d features =
     (case reduce_shape (shape features) of
        Inl e \<Rightarrow> Inl e
      | Inr s \<Rightarrow> Inr \<lparr>shape = s, node = ReduceMean (node features)\<rparr>)"

subsection \<open>Stage depths\<close>

text \<open>
  Python's \<^verbatim>\<open>int(x)\<close> on a float truncates towards zero. Under
  \<^verbatim>\<open>from __future__ import division\<close> the quotient \<^verbatim>\<open>(FLAGS.depth - 4) / 3\<close> is a
  true division; its double-precision result truncates to the same integer as the exact
  quotient as long as \<open>|depth - 4| < 2^53\<close>.
\<close>

definition py_int :: "real \<Rightarrow> int" where
  "py_int x = (if 0 \<le> x then \<lfloor>x\<rfloor> else \<lceil>x\<rceil>)"

definition first_depth :: "flags \<Rightarrow> int" where
  "first_depth FLAGS = py_int (real_of_int (depth FLAGS - 4) / 3)"

definition second_depth :: "flags \<Rightarrow> int" where
  "second_depth FLAGS = py_int (real_of_int (depth FLAGS - 4) / 3)"

definition third_depth :: "flags \<Rightarrow> int" where
  "third_depth FLAGS = depth FLAGS - (4 + first_depth FLAGS + second_depth FLAGS)"

subsection \<open>The network\<close>

text \<open>
  \<^verbatim>\<open>inference\<close> (lines 241--289): the first convolution, three stages of a dense
  block and a transition, the last normalisation with global pooling, and the linear
  classifier. \<open>stage\<close> is one \<^verbatim>\<open>with tf.variable_scope('dense<i>')\<close> body.
\<close>

definition stage :: "flags \<Rightarrow> tensor \<Rightarrow> int \<Rightarrow> bool \<Rightarrow> error + tensor" where
  "stage FLAGS features stage_depth training =
     (case block FLAGS features stage_depth (growth_rate FLAGS) training of
        Inl e \<Rightarrow> Inl e
      | Inr blk \<Rightarrow> transition FLAGS blk training)"

definition last_layers :: "flags \<Rightarrow> tensor \<Rightarrow> bool \<Rightarrow> error + tensor" where
  "last_layers FLAGS dense3 training =
     (let bn = batch_normalization FLAGS dense3 training;
          activate = relu bn
      in case global_average_pooling2d activate of
           Inl e \<Rightarrow> Inl e
         | Inr last' \<Rightarrow>
             (case l2_regularizer FLAGS of
                Inl e \<Rightarrow> Inl e
              | Inr regularizer \<Rightarrow> dense last' NUM_CLASSES))"

definition inference :: "flags \<Rightarrow> tensor \<Rightarrow> bool \<Rightarrow> error + tensor" where
  "inference FLAGS images training =
     (case conv2d FLAGS images 3 1 16 of
        Inl e \<Rightarrow> Inl e
      | Inr conv0 \<Rightarrow>
          (case stage FLAGS conv0 (first_depth FLAGS) training of
             Inl e \<Rightarrow> Inl e
           | Inr dense1 \<Rightarrow>
               (case stage FLAGS dense1 (second_depth FLAGS) training of
                  Inl e \<Rightarrow> Inl e
                | Inr dense2 \<Rightarrow>
                    (case stage FLAGS dense2 (third_depth FLAGS) training of
                       Inl e \<Rightarrow> Inl e
                     | Inr dense3 \<Rightarrow> last_layers FLAGS dense3 training))))"

section \<open>Labels and the input pipeline\<close>

text \<open>
  An element of a floating-point tensor is a finite number, an infinity or a NaN; a finite
  element is read as the real number it denotes. A 1-D tensor of labels holds integers
  or floating-point elements, according to its dtype.
\<close>

datatype fval = Fin real | PosInf | NegInf | NaN

datatype labels = IntTensor "int list" | FloatTensor "fval list"

text \<open>
  \<^verbatim>\<open>tf.cast(labels, tf.float16)\<close> on integers: a binary16 number has 11 significant
  bits, so every integer up to 2048 in magnitude is kept, a larger one is rounded to the
  nearest multiple of the spacing at its magnitude (ties to the even multiple), and a
  result above 65504 is an infinity.
\<close>

definition half_spacing :: "int \<Rightarrow> int" where
  "half_spacing a =
     (if a < 2048 then 1 else if a < 4096 then 2 else if a < 8192 then 4
      else if a < 16384 then 8 else if a < 32768 then 16 else 32)"

definition cast_float16 :: "int \<Rightarrow> fval" where
  "cast_float16 n =
     (let a = \<bar>n\<bar>; u = half_spacing a; q = a div u; r = a mod u;
          m = (if 2 * r < u then q else if u < 2 * r then q + 1
               else if even q then q else q + 1) * u
      in if 65504 < m then (if 0 \<le> n then PosInf else NegInf)
         else Fin (real_of_int (sgn n * m)))"

text \<open>
  \<^verbatim>\<open>tf.cast(labels, tf.int64)\<close>: an integer is wrapped to 64 bits; a finite
  floating-point element is truncated towards zero. The conversion of an element that
  is not finite, or whose truncation does not fit 64 bits, is not defined by the library;
  the model gives the value x86-64 produces, \<open>- 2^63\<close>.
\<close>

definition int64_of_int :: "int \<Rightarrow> int" where
  "int64_of_int n = sint (word_of_int n :: 64 word)"

fun int64_of_float :: "fval \<Rightarrow> int" where
  "int64_of_float (Fin x) =
     (if - (2 ^ 63) \<le> py_int x \<and> py_int x < 2 ^ 63 then py_int x else - (2 ^ 63))"
| "int64_of_float _ = - (2 ^ 63)"

fun cast_int64 :: "labels \<Rightarrow> int list" where
  "cast_int64 (IntTensor ns) = map int64_of_int ns"
| "cast_int64 (FloatTensor vs) = map int64_of_float vs"

text \<open>
  The graph has one more operation, the cast of the images to \<^verbatim>\<open>tf.float16\<close>; it keeps
  the shape.
\<close>

definition cast_images :: "tensor \<Rightarrow> tensor" where
  "cast_images images = \<lparr>shape = shape images, node = Cast (node images)\<rparr>"

text \<open>
  \<^verbatim>\<open>distorted_inputs\<close> (lines 119--137); \<^verbatim>\<open>inputs\<close> (lines 140--162) has the same
  body over the evaluation data. The batch that \<^verbatim>\<open>cifar10_input\<close> supplies when it
  succeeds, images and integer labels, is a parameter: that module is not part of the
  sources.
\<close>

definition distorted_inputs :: "flags \<Rightarrow> tensor \<times> int list \<Rightarrow> error + tensor \<times> labels" where
  "distorted_inputs FLAGS batch =
     (if data_dir FLAGS = [] then Inl ValueError
      else case batch of (images, labels) \<Rightarrow>
        if use_fp16 FLAGS
        then Inr (cast_images images, FloatTensor (map cast_float16 labels))
        else Inr (images, IntTensor labels))"

section \<open>The loss\<close>

text \<open>
  A scalar of the loss graph is identified with what defines its value once the logits,
  the labels and the parameters are fixed: a regularisation penalty with its value, the
  mean cross entropy of given logits and 64-bit labels, or the sum \<^verbatim>\<open>tf.add_n\<close> of a
  list of scalars.
\<close>

datatype scalar =
    Penalty real
  | CrossEntropyMean "real list list" "int list"
  | AddN "scalar list"

text \<open>
  The two graph collections the loss uses: \<^verbatim>\<open>tf.GraphKeys.REGULARIZATION_LOSSES\<close>,
  filled by the layers as they create their kernels, and \<^verbatim>\<open>'losses'\<close>.
\<close>

record graph =
  regularization_losses :: "scalar list"
  losses :: "scalar list"

text \<open>
  \<^verbatim>\<open>tf.nn.sparse_softmax_cross_entropy_with_logits\<close>: when the op is added, the number
  of labels must be the number of rows of the logits (\<open>ValueError\<close>); when it runs, a
  label outside \<open>[0, num_classes)\<close> is refused (\<open>InvalidArgumentError\<close>, as the CPU kernel
  does). For a row \<open>z\<close> and a label \<open>l\<close> the cross entropy is
  \<open>ln (\<Sum>j. exp z\<^sub>j) - z\<^sub>l\<close>.
\<close>

definition cross_entropy_example :: "real list \<Rightarrow> int \<Rightarrow> error + real" where
  "cross_entropy_example row label =
     (if 0 \<le> label \<and> label < int (length row)
      then Inr (ln (\<Sum>z\<leftarrow>row. exp z) - row ! nat label)
      else Inl InvalidArgumentError)"

fun cross_entropy_per_example :: "real list list \<Rightarrow> int list \<Rightarrow> error + real list" where
  "cross_entropy_per_example (row # rows) (label # labels) =
     (case cross_entropy_example row label of
        Inl e \<Rightarrow> Inl e
      | Inr c \<Rightarrow>
          (case cross_entropy_per_example rows labels of
             Inl e \<Rightarrow> Inl e
           | Inr cs \<Rightarrow> Inr (c # cs)))"
| "cross_entropy_per_example _ _ = Inr []"

text \<open>
  \<^verbatim>\<open>tf.reduce_mean\<close> of the per-example values; over an empty batch it is \<open>0 / 0\<close>, a
  NaN.
\<close>

definition reduce_mean :: "real list \<Rightarrow> fval" where
  "reduce_mean xs = (if xs = [] then NaN else Fin (sum_list xs / real (length xs)))"

text \<open>Floating-point addition on the elements, without rounding.\<close>

fun fadd :: "fval \<Rightarrow> fval \<Rightarrow> fval" where
  "fadd (Fin x) (Fin y) = Fin (x + y)"
| "fadd NaN _ = NaN"
| "fadd _ NaN = NaN"
| "fadd PosInf NegInf = NaN"
| "fadd NegInf PosInf = NaN"
| "fadd PosInf _ = PosInf"
| "fadd _ PosInf = PosInf"
| "fadd NegInf _ = NegInf"
| "fadd _ NegInf = NegInf"

text \<open>
  The value of a scalar when the graph runs; \<open>run_all\<close> evaluates the summands of an
  \<^verbatim>\<open>add_n\<close> and adds them up. (The library refuses an \<^verbatim>\<open>add_n\<close> of no tensors when it
  is built; \<^verbatim>\<open>loss\<close> never builds one, its list ends with the cross entropy.)
\<close>

fun run :: "scalar \<Rightarrow> error + fval"
  and run_all :: "scalar list \<Rightarrow> error + fval" where
  "run (Penalty v) = Inr (Fin v)"
| "run (CrossEntropyMean logits labels) =
     (case cross_entropy_per_example logits labels of
        Inl e \<Rightarrow> Inl e
      | Inr cross_entropy \<Rightarrow> Inr (reduce_mean cross_entropy))"
| "run (AddN ts) = run_all ts"
| "run_all [] = Inr (Fin 0)"
| "run_all (t # ts) =
     (case run t of
        Inl e \<Rightarrow> Inl e
      | Inr v \<Rightarrow>
          (case run_all ts of
             Inl e \<Rightarrow> Inl e
           | Inr w \<Rightarrow> Inr (fadd v w)))"

text \<open>
  \<^verbatim>\<open>loss\<close> (lines 292--316). It casts the labels, adds the cross entropy and its mean
  to the graph, extends the collection \<^verbatim>\<open>'losses'\<close> by the regularisation losses and by
  the mean, and returns the sum of everything the collection then holds, together with
  the graph as it has become.
\<close>

definition loss :: "graph \<Rightarrow> real list list \<Rightarrow> labels \<Rightarrow> error + scalar \<times> graph" where
  "loss g logits labels =
     (let labels64 = cast_int64 labels in
      if length labels64 \<noteq> length logits then Inl ValueError
      else
        let cross_entropy_mean = CrossEntropyMean logits labels64;
            g1 = g\<lparr>losses := losses g @ regularization_losses g\<rparr>;
            g2 = g1\<lparr>losses := losses g1 @ [cross_entropy_mean]\<rparr>
        in Inr (AddN (losses g2), g2))"

section \<open>Training\<close>

subsection \<open>What \<^verbatim>\<open>train\<close> takes from outside the file\<close>

text \<open>
  \<^verbatim>\<open>NUM_EXAMPLES_PER_EPOCH_FOR_TRAIN\<close> is a constant of \<^verbatim>\<open>cifar10_input\<close>, which is
  not part of the sources; \<^verbatim>\<open>np.array(b, dtype=np.float64)\<close> and \<^verbatim>\<open>float(v)\<close> read a
  number from a string and raise \<open>ValueError\<close> (here: give \<open>None\<close>) on a string that is
  not a number. All three are parameters of the model.
\<close>

record externals =
  NUM_EXAMPLES_PER_EPOCH_FOR_TRAIN :: int
  np_float64 :: "string \<Rightarrow> real option"
  py_float :: "string \<Rightarrow> real option"

text \<open>
  The numerical backend, for the batch of the current step: the trainable variables
  (\<^verbatim>\<open>tf.trainable_variables()\<close>), the gradient of the total loss with respect to each
  of them at given values of the variables (\<open>None\<close> for a variable the loss does not
  depend on), the values of the tensors in \<^verbatim>\<open>losses + [total_loss]\<close>, and the effect of
  the collected \<^verbatim>\<open>UPDATE_OPS\<close> of batch normalisation on its moving statistics. A
  variable is identified by its name and holds one number: a tensor variable stands for
  its components. Numbers are reals, where the code has 32-bit floats that round.
\<close>

type_synonym var = string

record backend =
  trainable_variables :: "var list"
  compute_gradients :: "(var \<Rightarrow> real) \<Rightarrow> var \<Rightarrow> real option"
  loss_values :: "(var \<Rightarrow> real) \<Rightarrow> real list"
  run_update_ops :: "(var \<Rightarrow> real) \<Rightarrow> real list \<Rightarrow> real list"

subsection \<open>The learning rate (lines 360--369)\<close>

text \<open>\<^verbatim>\<open>s.split(',')\<close>: the pieces between the commas, at least one.\<close>

fun split_comma :: "string \<Rightarrow> string list" where
  "split_comma [] = [[]]"
| "split_comma (c # cs) =
     (if c = CHR '','' then [] # split_comma cs
      else case split_comma cs of
             w # ws \<Rightarrow> (c # w) # ws
           | [] \<Rightarrow> [[c]])"

text \<open>A list comprehension that reads each piece; the first unreadable piece raises.\<close>

fun read_all :: "(string \<Rightarrow> real option) \<Rightarrow> string list \<Rightarrow> error + real list" where
  "read_all rd [] = Inr []"
| "read_all rd (w # ws) =
     (case rd w of
        None \<Rightarrow> Inl ValueError
      | Some x \<Rightarrow>
          (case read_all rd ws of
             Inl e \<Rightarrow> Inl e
           | Inr xs \<Rightarrow> Inr (x # xs)))"

text \<open>Lines 365--367: the boundaries, the values, and the assertion on their lengths.\<close>

definition lr_schedule :: "externals \<Rightarrow> flags \<Rightarrow> error + real list \<times> real list" where
  "lr_schedule ext FLAGS =
     (case read_all (np_float64 ext) (split_comma (lr_boundaries FLAGS)) of
        Inl e \<Rightarrow> Inl e
      | Inr boundaries \<Rightarrow>
          (case read_all (py_float ext) (split_comma (lr_values FLAGS)) of
             Inl e \<Rightarrow> Inl e
           | Inr values \<Rightarrow>
               if length boundaries + 1 = length values then Inr (boundaries, values)
               else Inl AssertionError))"

text \<open>
  The step counter is a 64-bit integer variable (as
  \<^verbatim>\<open>tf.train.get_or_create_global_step\<close> makes it), so its arithmetic wraps around, and a
  Python integer that meets it in an operation is first converted to a 64-bit tensor,
  which fails for an integer that does not fit.
\<close>

type_synonym int64 = "64 word"

definition fits_int64 :: "int \<Rightarrow> bool" where
  "fits_int64 n = (- (2 ^ 63) \<le> n \<and> n < 2 ^ 63)"

text \<open>
  Line 364: \<^verbatim>\<open>global_step * FLAGS.batch_size / NUM_EXAMPLES_PER_EPOCH_FOR_TRAIN\<close>. The
  product is a 64-bit product; the division is a true division of both sides as doubles
  (here: the exact quotient), which for a divisor of zero gives an infinity or a NaN.
\<close>

definition num_epoch :: "externals \<Rightarrow> flags \<Rightarrow> int64 \<Rightarrow> fval" where
  "num_epoch ext FLAGS step =
     (let product = sint (step * word_of_int (batch_size FLAGS));
          n = NUM_EXAMPLES_PER_EPOCH_FOR_TRAIN ext
      in if n = 0
         then (if 0 < product then PosInf else if product < 0 then NegInf else NaN)
         else Fin (real_of_int product / real_of_int n))"

text \<open>
  The comparisons \<open>x \<le> b\<close> and \<open>x > b\<close> of a double with a finite boundary: a NaN
  compares false either way.
\<close>

fun at_most :: "fval \<Rightarrow> real \<Rightarrow> bool" where
  "at_most (Fin x) b = (x \<le> b)"
| "at_most NegInf b = True"
| "at_most PosInf b = False"
| "at_most NaN b = False"

fun above :: "fval \<Rightarrow> real \<Rightarrow> bool" where
  "above (Fin x) b = (b < x)"
| "above PosInf b = True"
| "above NegInf b = False"
| "above NaN b = False"

text \<open>
  \<^verbatim>\<open>tf.train.piecewise_constant(x, boundaries, values)\<close>: the library builds the
  conditions \<open>x \<le> boundaries[0]\<close> (for \<open>values[0]\<close>), \<open>x > boundaries[-1]\<close> (for
  \<open>values[-1]\<close>) and \<open>low < x \<le> high\<close> for each pair of neighbouring boundaries (for the
  values in between), and a \<^verbatim>\<open>tf.case\<close> over them that is exclusive: when the graph runs,
  more than one true condition is an error, and none gives \<open>values[0]\<close>.
\<close>

definition conditions :: "fval \<Rightarrow> real list \<Rightarrow> real list \<Rightarrow> (bool \<times> real) list" where
  "conditions x boundaries values =
     (at_most x (hd boundaries), hd values) # (above x (last boundaries), last values) #
     map (\<lambda>(low, high, v). (above x low \<and> at_most x high, v))
       (zip (butlast boundaries) (zip (tl boundaries) (butlast (tl values))))"

definition piecewise_constant :: "fval \<Rightarrow> real list \<Rightarrow> real list \<Rightarrow> error + real" where
  "piecewise_constant x boundaries values =
     (if boundaries = [] \<or> values = [] then Inl IndexError
      else case filter fst (conditions x boundaries values) of
             [] \<Rightarrow> Inr (hd values)
           | [(_, v)] \<Rightarrow> Inr v
           | _ \<Rightarrow> Inl InvalidArgumentError)"

subsection \<open>The operations of one step (lines 373--402)\<close>

text \<open>
  The state a training step changes: the step counter, the trainable variables, their
  moving averages, the moving averages of the losses, the moving statistics of batch
  normalisation, and the two tensors that are computed once in a step and used by
  several operations: the gradients and the decay of the variables' average.
\<close>

record train_state =
  global_step :: int64
  variables :: "var \<Rightarrow> real"
  variable_averages :: "var \<Rightarrow> real"
  loss_averages :: "real list"
  moving_statistics :: "real list"
  grads :: "(var \<Rightarrow> real option) option"
  decay :: "real option"

text \<open>
  What \<^verbatim>\<open>train\<close> builds: the learning rate as a function of the step counter, and the
  backend it was given. Line 360 divides by the batch size (a \<open>ZeroDivisionError\<close> for
  a batch size of zero) before anything else; line 364 converts the batch size and the
  number of examples to 64-bit tensors; then come the lines of the schedule.
\<close>

record train_graph =
  lr :: "int64 \<Rightarrow> error + real"
  the_backend :: backend

definition train :: "externals \<Rightarrow> flags \<Rightarrow> backend \<Rightarrow> error + train_graph" where
  "train ext FLAGS B =
     (if batch_size FLAGS = 0 then Inl ZeroDivisionError
      else if \<not> fits_int64 (batch_size FLAGS)
              \<or> \<not> fits_int64 (NUM_EXAMPLES_PER_EPOCH_FOR_TRAIN ext)
      then Inl OverflowError
      else case lr_schedule ext FLAGS of
             Inl e \<Rightarrow> Inl e
           | Inr (boundaries, values) \<Rightarrow>
               Inr \<lparr>lr = (\<lambda>step. piecewise_constant (num_epoch ext FLAGS step)
                                  boundaries values),
                    the_backend = B\<rparr>)"

text \<open>
  The operations that running \<^verbatim>\<open>train_op\<close> executes. \<^verbatim>\<open>opt.apply_gradients\<close> (line 381)
  makes one update per trainable variable, \<open>update_variable v\<close>, and the increment of
  the step counter, which is \<^verbatim>\<open>apply_gradient_op\<close> itself and waits for all the updates.
  \<^verbatim>\<open>variable_averages.apply\<close> (line 395) makes the decay, \<open>read_decay\<close>, computed from
  the step counter, and one averaging per trainable variable, \<open>average_variable v\<close>,
  which uses the decay and reads the variable; \<^verbatim>\<open>variables_averages_op\<close> groups the
  averagings. \<^verbatim>\<open>grads\<close> is built under \<^verbatim>\<open>tf.control_dependencies([loss_averages_op])\<close>
  (line 376) and consumed by the updates, and \<^verbatim>\<open>train_op\<close> is built under
  \<^verbatim>\<open>tf.control_dependencies([apply_gradient_op, variables_averages_op] + update_ops)\<close>
  (line 401). Nothing else is ordered: in particular no averaging waits for an update
  or for the increment.
\<close>

datatype operation =
    loss_averages_op
  | grads_op
  | update_variable var
  | apply_gradient_op
  | read_decay
  | average_variable var
  | update_ops
  | train_op

fun waits_for :: "backend \<Rightarrow> operation \<Rightarrow> operation list" where
  "waits_for B loss_averages_op = []"
| "waits_for B grads_op = [loss_averages_op]"
| "waits_for B (update_variable v) = [grads_op]"
| "waits_for B apply_gradient_op = map update_variable (trainable_variables B)"
| "waits_for B read_decay = []"
| "waits_for B (average_variable v) = [read_decay]"
| "waits_for B update_ops = []"
| "waits_for B train_op =
     apply_gradient_op # map average_variable (trainable_variables B) @ [update_ops]"

definition all_operations :: "backend \<Rightarrow> operation list" where
  "all_operations B =
     [loss_averages_op, grads_op] @ map update_variable (trainable_variables B)
     @ [apply_gradient_op, read_decay] @ map average_variable (trainable_variables B)
     @ [update_ops, train_op]"

text \<open>
  An exponential moving average moves its shadow towards the value:
  \<open>shadow -= (1 - decay) * (shadow - value)\<close>. The average of the variables is built
  with the step counter as \<^verbatim>\<open>num_updates\<close> (line 394), so its decay is
  \<open>min(decay, (1 + num_updates) / (10 + num_updates))\<close>; the formula is meant for a
  counter that is not negative (at \<open>-10\<close> the code divides by zero).
\<close>

definition MOVING_AVERAGE_DECAY :: real where
  "MOVING_AVERAGE_DECAY = 9999 / 10000"

definition assign_moving_average :: "real \<Rightarrow> real \<Rightarrow> real \<Rightarrow> real" where
  "assign_moving_average d shadow x = shadow - (1 - d) * (shadow - x)"

definition variables_decay :: "int64 \<Rightarrow> real" where
  "variables_decay num_updates =
     min MOVING_AVERAGE_DECAY
       ((1 + real_of_int (sint num_updates)) / (10 + real_of_int (sint num_updates)))"

text \<open>
  The effect of each operation on the state. An update is gradient descent on its
  variable, \<open>var -= lr * grad\<close> if the variable has a gradient; it consumes \<^verbatim>\<open>grads\<close>,
  which every admissible order has computed before, and the learning rate, which is
  read from the step counter before the increment (the increment waits for the
  updates). An averaging consumes the decay and reads its variable as it is at that
  moment. The averages of the losses and the update operations of batch normalisation
  touch no state that the others read, and are taken as one action each.
\<close>

fun exec :: "train_graph \<Rightarrow> operation \<Rightarrow> train_state \<Rightarrow> error + train_state" where
  "exec G loss_averages_op s =
     Inr (s\<lparr>loss_averages :=
              map2 (assign_moving_average (9 / 10)) (loss_averages s)
                (loss_values (the_backend G) (variables s))\<rparr>)"
| "exec G grads_op s =
     Inr (s\<lparr>grads := Some (compute_gradients (the_backend G) (variables s))\<rparr>)"
| "exec G (update_variable v) s =
     (case grads s of
        None \<Rightarrow> Inl InvalidArgumentError
      | Some g \<Rightarrow>
          (case lr G (global_step s) of
             Inl e \<Rightarrow> Inl e
           | Inr rate \<Rightarrow>
               Inr (s\<lparr>variables :=
                        (variables s)
                          (v := (case g v of
                                   None \<Rightarrow> variables s v
                                 | Some d \<Rightarrow> variables s v - rate * d))\<rparr>)))"
| "exec G apply_gradient_op s = Inr (s\<lparr>global_step := global_step s + 1\<rparr>)"
| "exec G read_decay s = Inr (s\<lparr>decay := Some (variables_decay (global_step s))\<rparr>)"
| "exec G (average_variable v) s =
     (case decay s of
        None \<Rightarrow> Inl InvalidArgumentError
      | Some d \<Rightarrow>
          Inr (s\<lparr>variable_averages :=
                   (variable_averages s)
                     (v := assign_moving_average d (variable_averages s v)
                             (variables s v))\<rparr>))"
| "exec G update_ops s =
     Inr (s\<lparr>moving_statistics :=
              run_update_ops (the_backend G) (variables s) (moving_statistics s)\<rparr>)"
| "exec G train_op s = Inr s"

text \<open>
  One run of \<^verbatim>\<open>train_op\<close> executes every operation once, in an order in which each
  operation comes after those it waits for: \<open>schedule_from B executed xs\<close> holds when
  \<open>xs\<close> is such an order of the operations not yet in \<open>executed\<close>.
\<close>

fun schedule_from :: "backend \<Rightarrow> operation list \<Rightarrow> operation list \<Rightarrow> bool" where
  "schedule_from B executed [] = list_all (\<lambda>x. x \<in> set executed) (all_operations B)"
| "schedule_from B executed (x # xs) =
     (x \<in> set (all_operations B) \<and> x \<notin> set executed
      \<and> list_all (\<lambda>y. y \<in> set executed) (waits_for B x)
      \<and> schedule_from B (x # executed) xs)"

definition valid_schedule :: "backend \<Rightarrow> operation list \<Rightarrow> bool" where
  "valid_schedule B xs = schedule_from B [] xs"

fun run_step :: "train_graph \<Rightarrow> operation list \<Rightarrow> train_state \<Rightarrow> error + train_state" where
  "run_step G [] s = Inr s"
| "run_step G (x # xs) s =
     (case exec G x s of
        Inl e \<Rightarrow> Inl e
      | Inr s' \<Rightarrow> run_step G xs s')"

section \<open>Vocabulary of the statements\<close>

text \<open>
  The default values of the flags (lines 53--72), used as the concrete configuration of
  the examples.
\<close>

definition default_flags :: flags where
  "default_flags =
     \<lparr>batch_size = 128, data_dir = ''./cifar10_data'', use_fp16 = False,
      bn_momentum = 99 / 100, wd = 4 / 1000, depth = 40, growth_rate = 12,
      dropout_rate = 2 / 10, lr_boundaries = ''150,225'',
      lr_values = ''0.1,0.01,0.001''\<rparr>"

text \<open>
  The settings under which the library accepts the regularisers and the dropout layers:
  a weight decay that is not negative and, in training mode, a dropout rate in
  \<open>[0, 1)\<close>.
\<close>

definition accepted :: "flags \<Rightarrow> bool \<Rightarrow> bool" where
  "accepted FLAGS training =
     (0 \<le> wd FLAGS
      \<and> (training \<longrightarrow> 0 \<le> dropout_rate FLAGS \<and> dropout_rate FLAGS < 1))"

text \<open>
  The expressions the layers build: one unit layer over \<open>x\<close>, one round of a dense
  block (the running feature map \<open>x\<close> first, the new unit after it), one transition, and
  the whole network over the image node \<open>x\<close>.
\<close>

definition unit_node :: "flags \<Rightarrow> bool \<Rightarrow> int \<Rightarrow> node \<Rightarrow> node" where
  "unit_node FLAGS training out_channel x =
     Dropout (Conv2D (Relu (BatchNormalization x (bn_momentum FLAGS) training)) 3 1 out_channel)
       (dropout_rate FLAGS) training"

definition dense_step :: "flags \<Rightarrow> bool \<Rightarrow> int \<Rightarrow> node \<Rightarrow> node" where
  "dense_step FLAGS training growth x = Concat x (unit_node FLAGS training growth x)"

definition transition_node :: "flags \<Rightarrow> bool \<Rightarrow> nat \<Rightarrow> node \<Rightarrow> node" where
  "transition_node FLAGS training c x = AveragePooling2D (unit_node FLAGS training (int c) x)"

definition stage_channels :: "flags \<Rightarrow> nat \<Rightarrow> int \<Rightarrow> nat" where
  "stage_channels FLAGS c N = c + nat N * nat (growth_rate FLAGS)"

definition inference_node :: "flags \<Rightarrow> bool \<Rightarrow> node \<Rightarrow> node" where
  "inference_node FLAGS training x =
     (let c1 = stage_channels FLAGS 16 (first_depth FLAGS);
          c2 = stage_channels FLAGS c1 (second_depth FLAGS);
          c3 = stage_channels FLAGS c2 (third_depth FLAGS);
          conv0 = Conv2D x 3 1 16;
          dense1 = transition_node FLAGS training c1
                     ((dense_step FLAGS training (growth_rate FLAGS) ^^ nat (first_depth FLAGS)) conv0);
          dense2 = transition_node FLAGS training c2
                     ((dense_step FLAGS training (growth_rate FLAGS) ^^ nat (second_depth FLAGS)) dense1);
          dense3 = transition_node FLAGS training c3
                     ((dense_step FLAGS training (growth_rate FLAGS) ^^ nat (third_depth FLAGS)) dense2)
      in Dense (ReduceMean (Relu (BatchNormalization dense3 (bn_momentum FLAGS) training)))
           NUM_CLASSES)"

text \<open>
  The operations of an expression that take the raw image (the placeholder) as an
  argument.
\<close>

fun image_readers :: "node \<Rightarrow> node set" where
  "image_readers Placeholder = {}"
| "image_readers (Conv2D x k s f) =
     (if x = Placeholder then {Conv2D x k s f} else {}) \<union> image_readers x"
| "image_readers (BatchNormalization x m t) =
     (if x = Placeholder then {BatchNormalization x m t} else {}) \<union> image_readers x"
| "image_readers (Relu x) = (if x = Placeholder then {Relu x} else {}) \<union> image_readers x"
| "image_readers (Dropout x r t) =
     (if x = Placeholder then {Dropout x r t} else {}) \<union> image_readers x"
| "image_readers (Concat x y) =
     (if x = Placeholder \<or> y = Placeholder then {Concat x y} else {})
       \<union> image_readers x \<union> image_readers y"
| "image_readers (AveragePooling2D x) =
     (if x = Placeholder then {AveragePooling2D x} else {}) \<union> image_readers x"
| "image_readers (ReduceMean x) =
     (if x = Placeholder then {ReduceMean x} else {}) \<union> image_readers x"
| "image_readers (Dense x u) =
     (if x = Placeholder then {Dense x u} else {}) \<union> image_readers x"
| "image_readers (Cast x) = (if x = Placeholder then {Cast x} else {}) \<union> image_readers x"

text \<open>
  A class index, and a labels tensor whose elements are the given integers, whatever its
  dtype.
\<close>

definition class_index :: "int \<Rightarrow> bool" where
  "class_index l = (0 \<le> l \<and> l < NUM_CLASSES)"

fun denotes :: "labels \<Rightarrow> int list \<Rightarrow> bool" where
  "denotes (IntTensor ns) ls = (ns = ls)"
| "denotes (FloatTensor vs) ls = (vs = map (\<lambda>l. Fin (real_of_int l)) ls)"

text \<open>A graph with one registered penalty of value 1 and an empty collection \<^verbatim>\<open>'losses'\<close>.\<close>

definition example_graph :: graph where
  "example_graph = \<lparr>regularization_losses = [Penalty 1], losses = []\<rparr>"

text \<open>
  Whether operation \<open>a\<close> comes in a schedule before any occurrence of \<open>b\<close>.
\<close>

fun precedes :: "operation \<Rightarrow> operation \<Rightarrow> operation list \<Rightarrow> bool" where
  "precedes a b [] = False"
| "precedes a b (x # xs) = (if x = a then True else if x = b then False else precedes a b xs)"

text \<open>
  One step of gradient descent on a variable at rate \<open>rate\<close>, from the variables \<open>p\<close>.
\<close>

definition descent :: "backend \<Rightarrow> real \<Rightarrow> (var \<Rightarrow> real) \<Rightarrow> var \<Rightarrow> real" where
  "descent B rate p v =
     (case compute_gradients B p v of
        None \<Rightarrow> p v
      | Some d \<Rightarrow> p v - rate * d)"

text \<open>
  What holds of the state in the middle of a step that started in \<open>s0\<close>, after the
  operations in \<open>executed\<close>.
\<close>

definition step_inv ::
  "backend \<Rightarrow> real \<Rightarrow> train_state \<Rightarrow> operation list \<Rightarrow> train_state \<Rightarrow> bool" where
  "step_inv B rate s0 executed s =
     (set executed \<subseteq> set (all_operations B)
    \<and> global_step s =
        (if apply_gradient_op \<in> set executed then global_step s0 + 1 else global_step s0)
    \<and> (\<forall>v. variables s v =
          (if update_variable v \<in> set executed then descent B rate (variables s0) v
           else variables s0 v))
    \<and> (\<forall>v. update_variable v \<in> set executed \<longrightarrow> grads_op \<in> set executed)
    \<and> (apply_gradient_op \<in> set executed \<longrightarrow>
          (\<forall>v\<in>set (trainable_variables B). update_variable v \<in> set executed))
    \<and> (grads_op \<in> set executed \<longrightarrow>
          grads s = Some (compute_gradients B (variables s0)))
    \<and> (\<forall>v. average_variable v \<notin> set executed \<longrightarrow>
          variable_averages s v = variable_averages s0 v)
    \<and> (read_decay \<in> set executed \<longrightarrow> decay s \<noteq> None))"

text \<open>
  The decay and the average of a variable at the end of a step, seen from its middle:
  after the operations in \<open>executed\<close>, in state \<open>s\<close>, with the operations \<open>xs\<close> to come.
\<close>

definition decay_of ::
  "train_state \<Rightarrow> operation list \<Rightarrow> operation list \<Rightarrow> train_state \<Rightarrow> real" where
  "decay_of s0 executed xs s =
     (if read_decay \<in> set executed then the (decay s)
      else variables_decay
             (if apply_gradient_op \<in> set executed \<or> precedes apply_gradient_op read_decay xs
              then global_step s0 + 1 else global_step s0))"

definition average_of ::
  "backend \<Rightarrow> real \<Rightarrow> train_state \<Rightarrow> operation list \<Rightarrow> operation list \<Rightarrow> train_state
     \<Rightarrow> var \<Rightarrow> real" where
  "average_of B rate s0 executed xs s v =
     (if average_variable v \<in> set executed then variable_averages s v
      else if v \<in> set (trainable_variables B)
      then assign_moving_average (decay_of s0 executed xs s) (variable_averages s0 v)
             (if update_variable v \<in> set executed
                 \<or> precedes (update_variable v) (average_variable v) xs
              then descent B rate (variables s0) v else variables s0 v)
      else variable_averages s0 v)"

text \<open>
  The examples: a reader of the numerals that occur in them, standing for \<^verbatim>\<open>float\<close>
  and \<^verbatim>\<open>np.float64\<close> on these strings; 50000 training examples per epoch; a backend
  with one trainable variable \<open>w\<close> whose gradient is 1; a state at step 100000 and one
  at step 0, in both of which \<open>w\<close> and its moving average are 1; and three schedules:
  with the averaging before the update, with the decay read before the step but the
  variable averaged after its update, and with the averaging after the whole update.
\<close>

definition example_reader :: "string \<Rightarrow> real option" where
  "example_reader w =
     (if w = ''150'' then Some 150 else if w = ''225'' then Some 225
      else if w = ''0.1'' then Some (1 / 10) else if w = ''0.01'' then Some (1 / 100)
      else if w = ''0.001'' then Some (1 / 1000) else if w = ''0'' then Some 0
      else None)"

definition example_externals :: externals where
  "example_externals =
     \<lparr>NUM_EXAMPLES_PER_EPOCH_FOR_TRAIN = 50000, np_float64 = example_reader,
      py_float = example_reader\<rparr>"

definition example_backend :: backend where
  "example_backend =
     \<lparr>trainable_variables = [''w''],
      compute_gradients = (\<lambda>p v. if v = ''w'' then Some 1 else None),
      loss_values = (\<lambda>p. []),
      run_update_ops = (\<lambda>p m. m)\<rparr>"

definition example_state :: train_state where
  "example_state =
     \<lparr>global_step = 100000, variables = (\<lambda>v. 1), variable_averages = (\<lambda>v. 1),
      loss_averages = [], moving_statistics = [], grads = None, decay = None\<rparr>"

definition initial_state :: train_state where
  "initial_state = example_state\<lparr>global_step := 0\<rparr>"

definition average_first :: "operation list" where
  "average_first =
     [read_decay, average_variable ''w'', loss_averages_op, grads_op,
      update_variable ''w'', apply_gradient_op, update_ops, train_op]"

definition average_between :: "operation list" where
  "average_between =
     [read_decay, loss_averages_op, grads_op, update_variable ''w'',
      average_variable ''w'', apply_gradient_op, update_ops, train_op]"

definition average_last :: "operation list" where
  "average_last =
     [loss_averages_op, grads_op, update_variable ''w'', apply_gradient_op, update_ops,
      read_decay, average_variable ''w'', train_op]"

section \<open>Shapes and expressions of the layers\<close>

lemma same_size_1: "same_size n 1 = n"
  by (simp add: same_size_def)

lemma unit_layer_ok:
  assumes "shape features = [b, h, w, c]" and "0 \<le> out_channel"
    and "accepted FLAGS training"
  shows "unit_layer FLAGS features out_channel training =
           Inr \<lparr>shape = [b, h, w, nat out_channel],
                node = unit_node FLAGS training out_channel (node features)\<rparr>"
  using assms
  by (auto simp add: unit_layer_def conv2d_def l2_regularizer_def batch_normalization_def
      relu_def dropout_def unit_node_def same_size_1 accepted_def)

lemma conv2d_shape_error: "conv2d_shape s stride oc = Inl e \<Longrightarrow> e = ValueError"
  by (cases "(s, stride, oc)" rule: conv2d_shape.cases) auto

lemma unit_layer_refused:
  assumes "out_channel < 0 \<or> \<not> accepted FLAGS training"
  shows "unit_layer FLAGS features out_channel training = Inl ValueError"
  using assms
  by (auto simp add: unit_layer_def conv2d_def l2_regularizer_def dropout_def accepted_def
      Let_def split: sum.splits dest: conv2d_shape_error)

lemma block_loop_ok:
  assumes "shape features = [b, h, w, c]" and "0 \<le> growth"
    and "accepted FLAGS training"
  shows "block_loop FLAGS growth training n features =
           Inr \<lparr>shape = [b, h, w, c + n * nat growth],
                node = (dense_step FLAGS training growth ^^ n) (node features)\<rparr>"
  using assms
proof (induction n arbitrary: features c)
  case 0
  then show ?case by simp
next
  case (Suc n)
  let ?f = "\<lparr>shape = [b, h, w, c + nat growth],
             node = dense_step FLAGS training growth (node features)\<rparr>"
  have step: "unit_layer FLAGS features growth training =
      Inr \<lparr>shape = [b, h, w, nat growth],
           node = unit_node FLAGS training growth (node features)\<rparr>"
    using Suc.prems by (intro unit_layer_ok)
  have cat: "concat features \<lparr>shape = [b, h, w, nat growth],
           node = unit_node FLAGS training growth (node features)\<rparr> = Inr ?f"
    using Suc.prems by (simp add: concat_def dense_step_def)
  have "block_loop FLAGS growth training n ?f =
      Inr \<lparr>shape = [b, h, w, (c + nat growth) + n * nat growth],
           node = (dense_step FLAGS training growth ^^ n) (node ?f)\<rparr>"
    by (rule Suc.IH) (simp_all add: Suc.prems)
  then show ?case
    by (simp add: step cat funpow_swap1 algebra_simps)
qed


lemma block_ok:
  assumes "shape features = [b, h, w, c]"
    and "0 < N \<longrightarrow> 0 \<le> growth \<and> accepted FLAGS training"
  shows "block FLAGS features N growth training =
           Inr \<lparr>shape = [b, h, w, c + nat N * nat growth],
                node = (dense_step FLAGS training growth ^^ nat N) (node features)\<rparr>"
proof (cases "0 < N")
  case True
  with assms show ?thesis
    by (simp add: block_def block_loop_ok)
next
  case False
  then have "nat N = 0" by simp
  with assms(1) show ?thesis
    by (simp add: block_def)
qed

lemma valid_size_2: "valid_size n 2 2 = (if n < 2 then Inl ValueError else Inr (n div 2))"
  by (simp add: valid_size_def) presburger

lemma transition_eq:
  assumes "shape features = [b, h, w, c]"
  shows "transition FLAGS features training =
           (if \<not> accepted FLAGS training \<or> h < 2 \<or> w < 2 then Inl ValueError
            else Inr \<lparr>shape = [b, h div 2, w div 2, c],
                      node = transition_node FLAGS training c (node features)\<rparr>)"
proof (cases "accepted FLAGS training")
  case True
  have u: "unit_layer FLAGS features (int c) training =
      Inr \<lparr>shape = [b, h, w, nat (int c)],
           node = unit_node FLAGS training (int c) (node features)\<rparr>"
    using assms True by (intro unit_layer_ok) simp_all
  show ?thesis
    using assms True
    by (simp add: transition_def num_channel_def u average_pooling2d_def valid_size_2
        transition_node_def)
next
  case False
  then have "unit_layer FLAGS features (int c) training = Inl ValueError"
    by (intro unit_layer_refused) simp
  with False assms show ?thesis
    by (simp add: transition_def num_channel_def)
qed

lemma stage_ok:
  assumes "shape features = [b, h, w, c]" and "0 < N \<longrightarrow> 0 \<le> growth_rate FLAGS"
    and "2 \<le> h" and "2 \<le> w" and "accepted FLAGS training"
  shows "stage FLAGS features N training =
           Inr \<lparr>shape = [b, h div 2, w div 2, c + nat N * nat (growth_rate FLAGS)],
                node = transition_node FLAGS training (c + nat N * nat (growth_rate FLAGS))
                         ((dense_step FLAGS training (growth_rate FLAGS) ^^ nat N)
                            (node features))\<rparr>"
proof -
  let ?blk = "\<lparr>shape = [b, h, w, c + nat N * nat (growth_rate FLAGS)],
      node = (dense_step FLAGS training (growth_rate FLAGS) ^^ nat N) (node features)\<rparr>"
  have b: "block FLAGS features N (growth_rate FLAGS) training = Inr ?blk"
    using assms(1,2,5) by (intro block_ok) simp_all
  have "transition FLAGS ?blk training =
      (if \<not> accepted FLAGS training \<or> h < 2 \<or> w < 2 then Inl ValueError
       else Inr \<lparr>shape = [b, h div 2, w div 2, c + nat N * nat (growth_rate FLAGS)],
          node = transition_node FLAGS training (c + nat N * nat (growth_rate FLAGS))
                   (node ?blk)\<rparr>)"
    by (rule transition_eq) simp
  with assms(3,4,5) show ?thesis
    by (simp add: stage_def b)
qed

lemma last_layers_ok:
  assumes "shape dense3 = [b, h, w, c]" and "0 \<le> wd FLAGS"
  shows "last_layers FLAGS dense3 training =
           Inr \<lparr>shape = [b, nat NUM_CLASSES],
                node = Dense (ReduceMean (Relu
                         (BatchNormalization (node dense3) (bn_momentum FLAGS) training)))
                         NUM_CLASSES\<rparr>"
  using assms
  by (simp add: last_layers_def batch_normalization_def relu_def
      global_average_pooling2d_def dense_def NUM_CLASSES_def l2_regularizer_def)

lemma inference_ok:
  assumes img: "shape images = [b, 32, 32, 3]"
    and g1: "0 < first_depth FLAGS \<longrightarrow> 0 \<le> growth_rate FLAGS"
    and g2: "0 < second_depth FLAGS \<longrightarrow> 0 \<le> growth_rate FLAGS"
    and g3: "0 < third_depth FLAGS \<longrightarrow> 0 \<le> growth_rate FLAGS"
    and acc: "accepted FLAGS training"
  shows "inference FLAGS images training =
           Inr \<lparr>shape = [b, nat NUM_CLASSES],
                node = inference_node FLAGS training (node images)\<rparr>"
proof -
  let ?c1 = "stage_channels FLAGS 16 (first_depth FLAGS)"
  let ?c2 = "stage_channels FLAGS ?c1 (second_depth FLAGS)"
  let ?c3 = "stage_channels FLAGS ?c2 (third_depth FLAGS)"
  let ?conv0 = "\<lparr>shape = [b, 32, 32, 16], node = Conv2D (node images) 3 1 16\<rparr>"
  have wd: "0 \<le> wd FLAGS"
    using acc by (simp add: accepted_def)
  have c0: "conv2d FLAGS images 3 1 16 = Inr ?conv0"
    using img wd by (simp add: conv2d_def l2_regularizer_def same_size_1)
  let ?step = "dense_step FLAGS training (growth_rate FLAGS)"
  let ?n1 = "transition_node FLAGS training ?c1
      ((?step ^^ nat (first_depth FLAGS)) (Conv2D (node images) 3 1 16))"
  let ?n2 = "transition_node FLAGS training ?c2 ((?step ^^ nat (second_depth FLAGS)) ?n1)"
  let ?n3 = "transition_node FLAGS training ?c3 ((?step ^^ nat (third_depth FLAGS)) ?n2)"
  let ?dense1 = "\<lparr>shape = [b, 16, 16, ?c1], node = ?n1\<rparr>"
  let ?dense2 = "\<lparr>shape = [b, 8, 8, ?c2], node = ?n2\<rparr>"
  let ?dense3 = "\<lparr>shape = [b, 4, 4, ?c3], node = ?n3\<rparr>"
  have d1: "stage FLAGS ?conv0 (first_depth FLAGS) training = Inr ?dense1"
    using stage_ok [of ?conv0 b 32 32 16 "first_depth FLAGS" FLAGS training] g1 acc
    by (simp add: stage_channels_def)
  have d2: "stage FLAGS ?dense1 (second_depth FLAGS) training = Inr ?dense2"
    using stage_ok [of ?dense1 b 16 16 ?c1 "second_depth FLAGS" FLAGS training] g2 acc
    by (simp add: stage_channels_def)
  have d3: "stage FLAGS ?dense2 (third_depth FLAGS) training = Inr ?dense3"
    using stage_ok [of ?dense2 b 8 8 ?c2 "third_depth FLAGS" FLAGS training] g3 acc
    by (simp add: stage_channels_def)
  have "last_layers FLAGS ?dense3 training =
      Inr \<lparr>shape = [b, nat NUM_CLASSES],
           node = Dense (ReduceMean (Relu
                    (BatchNormalization ?n3 (bn_momentum FLAGS) training)))
                    NUM_CLASSES\<rparr>"
    using last_layers_ok [of ?dense3 b 4 4 ?c3 FLAGS training] wd by simp
  then show ?thesis
    by (simp add: inference_def c0 d1 d2 d3 inference_node_def Let_def)
qed


lemma unit_node_readers:
  "x \<noteq> Placeholder \<Longrightarrow> image_readers (unit_node FLAGS training c x) = image_readers x"
  by (simp add: unit_node_def)

lemma dense_steps_readers:
  "x \<noteq> Placeholder \<Longrightarrow>
     (dense_step FLAGS training g ^^ n) x \<noteq> Placeholder \<and>
     image_readers ((dense_step FLAGS training g ^^ n) x) = image_readers x"
  by (induction n) (simp_all add: dense_step_def unit_node_readers unit_node_def)

lemma stage_node_readers:
  assumes "x \<noteq> Placeholder"
  shows "transition_node FLAGS training c ((dense_step FLAGS training g ^^ n) x) \<noteq> Placeholder"
    and "image_readers (transition_node FLAGS training c ((dense_step FLAGS training g ^^ n) x))
           = image_readers x"
  using dense_steps_readers [OF assms, where FLAGS = FLAGS and training = training
      and g = g and n = n]
  by (simp_all add: transition_node_def unit_node_readers) (simp add: unit_node_def)

lemma inference_node_readers:
  "image_readers (inference_node FLAGS training Placeholder) = {Conv2D Placeholder 3 1 16}"
  by (simp add: inference_node_def Let_def stage_node_readers)

subsection \<open>Stage depths\<close>

lemma py_int_div3: "0 \<le> x \<Longrightarrow> py_int (real_of_int x / 3) = x div 3"
proof -
  assume "0 \<le> x"
  have "\<lfloor>real_of_int x / real_of_int 3\<rfloor> = x div 3"
    by (rule floor_divide_of_int_eq)
  with \<open>0 \<le> x\<close> show ?thesis
    by (simp add: py_int_def)
qed

lemma low_depth:
  assumes "depth FLAGS < 4"
  shows "first_depth FLAGS \<le> 0" and "second_depth FLAGS \<le> 0" and "third_depth FLAGS < 0"
proof -
  define x where "x = depth FLAGS - 4"
  have neg: "x < 0" using assms by (simp add: x_def)
  have "\<lceil>real_of_int x / real_of_int 3\<rceil> = - ((- x) div 3)"
    by (rule ceiling_divide_eq_div)
  with neg have f: "py_int (real_of_int x / 3) = - ((- x) div 3)"
    by (simp add: py_int_def)
  show "first_depth FLAGS \<le> 0"
    using f neg by (simp add: first_depth_def x_def [symmetric])
  show "second_depth FLAGS \<le> 0"
    using f neg by (simp add: second_depth_def x_def [symmetric])
  have "third_depth FLAGS = x + 2 * ((- x) div 3)"
    using f by (simp add: third_depth_def first_depth_def second_depth_def x_def [symmetric])
  with neg show "third_depth FLAGS < 0" by linarith
qed

lemma inference_low_depth:
  assumes "depth FLAGS < 4" and "shape images = [b, 32, 32, 3]"
    and "accepted FLAGS training"
  shows "inference FLAGS images training =
           Inr \<lparr>shape = [b, 10],
                node = Dense (ReduceMean (Relu (BatchNormalization
                         (transition_node FLAGS training 16
                           (transition_node FLAGS training 16
                             (transition_node FLAGS training 16
                               (Conv2D (node images) 3 1 16))))
                         (bn_momentum FLAGS) training))) 10\<rparr>"
proof -
  have z: "nat (first_depth FLAGS) = 0" "nat (second_depth FLAGS) = 0"
    "nat (third_depth FLAGS) = 0"
    using low_depth [OF assms(1)] by simp_all
  have "inference FLAGS images training =
      Inr \<lparr>shape = [b, nat NUM_CLASSES], node = inference_node FLAGS training (node images)\<rparr>"
    using assms(2,3) low_depth [OF assms(1)] by (intro inference_ok) simp_all
  then show ?thesis
    by (simp add: inference_node_def stage_channels_def z NUM_CLASSES_def)
qed

section \<open>Claims about the network architecture\<close>

text \<open>
  Claim C1. For every configured depth of at least 4, the first and the second stage
  depth are both \<open>floor((depth - 4) / 3)\<close>, the third is what remains of \<open>depth - 4\<close>,
  the three together with the 4 fixed layers add up to the depth, and none is negative.
\<close>

theorem stage_depths_sum:
  assumes "4 \<le> depth FLAGS"
  shows "first_depth FLAGS = (depth FLAGS - 4) div 3
       \<and> second_depth FLAGS = (depth FLAGS - 4) div 3
       \<and> third_depth FLAGS = depth FLAGS - 4 - first_depth FLAGS - second_depth FLAGS
       \<and> 4 + first_depth FLAGS + second_depth FLAGS + third_depth FLAGS = depth FLAGS
       \<and> 0 \<le> first_depth FLAGS \<and> 0 \<le> second_depth FLAGS \<and> 0 \<le> third_depth FLAGS"
proof -
  have q: "py_int (real_of_int (depth FLAGS - 4) / 3) = (depth FLAGS - 4) div 3"
    using assms by (intro py_int_div3) simp
  have f: "first_depth FLAGS = (depth FLAGS - 4) div 3"
    unfolding first_depth_def by (rule q)
  have s: "second_depth FLAGS = (depth FLAGS - 4) div 3"
    unfolding second_depth_def by (rule q)
  have t: "third_depth FLAGS = depth FLAGS - 4 - first_depth FLAGS - second_depth FLAGS"
    by (simp add: third_depth_def)
  have nonneg: "0 \<le> (depth FLAGS - 4) div 3"
    using assms by simp
  have "2 * ((depth FLAGS - 4) div 3) \<le> depth FLAGS - 4"
    using assms by linarith
  with f s t nonneg show ?thesis by simp
qed

theorem stage_depths_sum_witness:
  "4 \<le> depth default_flags
   \<and> first_depth default_flags = 12 \<and> second_depth default_flags = 12
   \<and> third_depth default_flags = 12
   \<and> 4 + first_depth default_flags + second_depth default_flags
        + third_depth default_flags = depth default_flags"
  using stage_depths_sum [of default_flags] by (simp add: default_flags_def)

text \<open>
  Claim C7. On a feature map of shape \<open>[b, h, w, c]\<close>, a dense block of depth
  \<open>N \<ge> 0\<close> succeeds, provided that, whenever a unit is built, the growth rate and the
  weight decay are not negative and the dropout rate is in \<open>[0, 1)\<close> in training mode;
  its output keeps \<open>b\<close>, \<open>h\<close> and \<open>w\<close> and has \<open>c + N * growth\<close> channels; it is the
  running feature map extended \<open>N\<close> times by a unit layer over the whole map so far,
  each new unit after the channels already there; and for \<open>N = 0\<close> it is the input.
\<close>

theorem block_channels:
  assumes "shape features = [b, h, w, c]" and "0 \<le> N"
    and "0 < N \<longrightarrow>
           0 \<le> growth \<and> 0 \<le> wd FLAGS
           \<and> (training \<longrightarrow> 0 \<le> dropout_rate FLAGS \<and> dropout_rate FLAGS < 1)"
  shows "\<exists>out. block FLAGS features N growth training = Inr out
           \<and> shape out = [b, h, w, c + nat N * nat growth]
           \<and> node out = (dense_step FLAGS training growth ^^ nat N) (node features)
           \<and> (N = 0 \<longrightarrow> out = features)"
proof -
  have "block FLAGS features N growth training =
      Inr \<lparr>shape = [b, h, w, c + nat N * nat growth],
           node = (dense_step FLAGS training growth ^^ nat N) (node features)\<rparr>"
    using assms(1,3) by (intro block_ok) (simp_all add: accepted_def)
  moreover have "block FLAGS features 0 growth training = Inr features"
    by (simp add: block_def)
  ultimately show ?thesis by auto
qed

theorem block_channels_witness:
  "\<exists>out. block default_flags \<lparr>shape = [128, 32, 32, 16], node = Placeholder\<rparr> 2 12 True
            = Inr out
     \<and> shape out = [128, 32, 32, 40]
     \<and> node out = dense_step default_flags True 12 (dense_step default_flags True 12 Placeholder)"
proof -
  have "0 \<le> wd default_flags \<and> 0 \<le> dropout_rate default_flags
      \<and> dropout_rate default_flags < 1"
    by (simp add: default_flags_def)
  with block_channels [of "\<lparr>shape = [128, 32, 32, 16], node = Placeholder\<rparr>"
      128 32 32 16 2 12 default_flags True]
  show ?thesis
    by (simp add: numeral_2_eq_2)
qed

text \<open>
  Claim C3, as the code has it. On a feature map of shape \<open>[b, h, w, c]\<close> with height
  and width of at least 2 (and a weight decay and dropout rate the library accepts), a
  transition applies a unit layer with as many output channels as its input has, then
  the 2x2 average pooling with stride 2 and padding \<^verbatim>\<open>valid\<close>. The output height and width
  are \<open>h div 2\<close> and \<open>w div 2\<close>: exactly half for an even size, and the half rounded down
  for an odd one, which is truncated and not refused.
\<close>

theorem transition_output:
  assumes "shape features = [b, h, w, c]" and "2 \<le> h" and "2 \<le> w"
    and "0 \<le> wd FLAGS"
    and "training \<longrightarrow> 0 \<le> dropout_rate FLAGS \<and> dropout_rate FLAGS < 1"
  shows "transition FLAGS features training =
           Inr \<lparr>shape = [b, h div 2, w div 2, c],
                node = AveragePooling2D
                         (unit_node FLAGS training (int c) (node features))\<rparr>"
  using transition_eq [OF assms(1), of FLAGS training] assms(2-5)
  by (simp add: transition_node_def accepted_def)

theorem transition_output_witness:
  "transition default_flags \<lparr>shape = [128, 32, 32, 16], node = Placeholder\<rparr> True =
     Inr \<lparr>shape = [128, 16, 16, 16],
          node = AveragePooling2D (unit_node default_flags True 16 Placeholder)\<rparr>
   \<and> transition default_flags \<lparr>shape = [128, 5, 7, 16], node = Placeholder\<rparr> False =
     Inr \<lparr>shape = [128, 2, 3, 16],
          node = AveragePooling2D (unit_node default_flags False 16 Placeholder)\<rparr>"
proof -
  have f: "0 \<le> wd default_flags" "0 \<le> dropout_rate default_flags"
    "dropout_rate default_flags < 1"
    by (simp_all add: default_flags_def)
  from transition_output [of "\<lparr>shape = [128, 32, 32, 16], node = Placeholder\<rparr>"
      128 32 32 16 default_flags True]
    transition_output [of "\<lparr>shape = [128, 5, 7, 16], node = Placeholder\<rparr>"
      128 5 7 16 default_flags False] f
  show ?thesis by simp
qed

text \<open>
  The claim as the specification states it fails: a 17x17 feature map is pooled to 8x8
  and no error is raised.
\<close>

theorem transition_odd_input_truncates:
  "transition default_flags \<lparr>shape = [128, 17, 17, 16], node = Placeholder\<rparr> True =
     Inr \<lparr>shape = [128, 8, 8, 16],
          node = AveragePooling2D (Dropout (Conv2D (Relu
                   (BatchNormalization Placeholder (99 / 100) True)) 3 1 16) (2 / 10) True)\<rparr>"
  by (simp add: transition_def num_channel_def l2_regularizer_def
      unit_layer_def conv2d_def batch_normalization_def relu_def dropout_def
      average_pooling2d_def valid_size_def same_size_def default_flags_def)

text \<open>
  Claim C4, as the code has it. The network is built without any check of the depth.
  For a depth below 4 no stage depth is positive, so no dense block builds a unit, and
  on 32x32x3 images (with a weight decay and dropout rate the library accepts) the
  construction succeeds: it is the first convolution, three transitions over 16
  channels and the classifier, with logits of shape \<open>[b, 10]\<close>.
\<close>

theorem inference_depth_below_4:
  assumes "depth FLAGS < 4" and "shape images = [b, 32, 32, 3]"
    and "0 \<le> wd FLAGS"
    and "training \<longrightarrow> 0 \<le> dropout_rate FLAGS \<and> dropout_rate FLAGS < 1"
  shows "first_depth FLAGS \<le> 0 \<and> second_depth FLAGS \<le> 0 \<and> third_depth FLAGS < 0
       \<and> inference FLAGS images training =
           Inr \<lparr>shape = [b, 10],
                node = Dense (ReduceMean (Relu (BatchNormalization
                         (transition_node FLAGS training 16
                           (transition_node FLAGS training 16
                             (transition_node FLAGS training 16
                               (Conv2D (node images) 3 1 16))))
                         (bn_momentum FLAGS) training))) 10\<rparr>"
proof -
  have "accepted FLAGS training"
    using assms(3,4) by (simp add: accepted_def)
  with low_depth [OF assms(1)] inference_low_depth [OF assms(1,2), of training]
  show ?thesis by simp
qed

theorem inference_depth_below_4_witness:
  "depth (default_flags\<lparr>depth := 0\<rparr>) < 4
   \<and> first_depth (default_flags\<lparr>depth := 0\<rparr>) \<le> 0
   \<and> third_depth (default_flags\<lparr>depth := 0\<rparr>) < 0
   \<and> (\<exists>logits. inference (default_flags\<lparr>depth := 0\<rparr>)
          \<lparr>shape = [128, 32, 32, 3], node = Placeholder\<rparr> True = Inr logits
        \<and> shape logits = [128, 10])"
  using inference_depth_below_4 [of "default_flags\<lparr>depth := 0\<rparr>"
      "\<lparr>shape = [128, 32, 32, 3], node = Placeholder\<rparr>" 128 True]
  by (simp add: default_flags_def)

text \<open>
  The claim as the specification states it fails: with depth 3 the network is built and
  no error is raised.
\<close>

theorem inference_depth_3_succeeds:
  "\<exists>logits. inference (default_flags\<lparr>depth := 3\<rparr>)
       \<lparr>shape = [128, 32, 32, 3], node = Placeholder\<rparr> True = Inr logits
     \<and> shape logits = [128, 10]"
proof -
  have c: "\<lceil>- (1 / 3 :: real)\<rceil> = 0"
    by (rule ceiling_unique) simp_all
  show ?thesis
    by (simp add: c inference_def stage_def block_def transition_def num_channel_def
        unit_layer_def conv2d_def l2_regularizer_def batch_normalization_def relu_def
        dropout_def average_pooling2d_def valid_size_def same_size_def last_layers_def
        global_average_pooling2d_def dense_def NUM_CLASSES_def
        first_depth_def second_depth_def third_depth_def py_int_def default_flags_def)
qed

text \<open>
  Claim C9. On a batch of \<open>b\<close> images of 32x32x3, in training and in evaluation mode
  alike, the network is built and its logits have shape \<open>[b, 10]\<close>, provided the growth
  rate and the weight decay are not negative and, in training mode, the dropout rate is
  in \<open>[0, 1)\<close>; the only operation that reads the raw image is the 3x3 convolution with
  stride 1 and 16 filters.
\<close>

theorem inference_logits_shape:
  assumes "shape images = [b, 32, 32, 3]" and "node images = Placeholder"
    and "0 \<le> growth_rate FLAGS" and "0 \<le> wd FLAGS"
    and "training \<longrightarrow> 0 \<le> dropout_rate FLAGS \<and> dropout_rate FLAGS < 1"
  shows "\<exists>logits. inference FLAGS images training = Inr logits
           \<and> shape logits = [b, 10]
           \<and> image_readers (node logits) = {Conv2D Placeholder 3 1 16}"
proof -
  have "accepted FLAGS training"
    using assms(4,5) by (simp add: accepted_def)
  then have "inference FLAGS images training =
      Inr \<lparr>shape = [b, nat NUM_CLASSES], node = inference_node FLAGS training (node images)\<rparr>"
    using assms(1,3) by (intro inference_ok) simp_all
  then show ?thesis
    by (simp add: assms(2) inference_node_readers NUM_CLASSES_def)
qed

theorem inference_logits_shape_witness:
  "(\<exists>logits. inference default_flags \<lparr>shape = [128, 32, 32, 3], node = Placeholder\<rparr> True
        = Inr logits
      \<and> shape logits = [128, 10]
      \<and> image_readers (node logits) = {Conv2D Placeholder 3 1 16})
   \<and> (\<exists>logits. inference default_flags \<lparr>shape = [128, 32, 32, 3], node = Placeholder\<rparr> False
        = Inr logits
      \<and> shape logits = [128, 10]
      \<and> image_readers (node logits) = {Conv2D Placeholder 3 1 16})"
  using inference_logits_shape [of "\<lparr>shape = [128, 32, 32, 3], node = Placeholder\<rparr>"
          128 default_flags True]
    inference_logits_shape [of "\<lparr>shape = [128, 32, 32, 3], node = Placeholder\<rparr>"
          128 default_flags False]
  by (simp add: default_flags_def)

section \<open>Casts of the labels\<close>

lemma py_int_of_int: "py_int (real_of_int l) = l"
  by (simp add: py_int_def)

lemma int64_of_int_id:
  assumes "- (2 ^ 63) \<le> l" and "l < 2 ^ 63"
  shows "int64_of_int l = l"
  using assms by (simp add: int64_of_int_def sint_sbintrunc' signed_take_bit_int_eq_self)

lemma int64_of_float_of_int:
  assumes "- (2 ^ 63) \<le> l" and "l < 2 ^ 63"
  shows "int64_of_float (Fin (real_of_int l)) = l"
  using assms by (simp add: py_int_of_int)

lemma cast_float16_exact:
  assumes "\<bar>l\<bar> < 2048"
  shows "cast_float16 l = Fin (real_of_int l)"
proof -
  have "sgn l * \<bar>l\<bar> = l" by (simp add: sgn_if)
  with assms show ?thesis
    by (simp add: cast_float16_def half_spacing_def Let_def mult.commute)
qed

lemma class_index_casts:
  assumes "class_index l"
  shows "int64_of_int l = l" and "int64_of_float (Fin (real_of_int l)) = l"
    and "cast_float16 l = Fin (real_of_int l)"
proof -
  from assms have r: "0 \<le> l" "l < 10" by (simp_all add: class_index_def NUM_CLASSES_def)
  then show "int64_of_int l = l" by (intro int64_of_int_id) simp_all
  from r show "int64_of_float (Fin (real_of_int l)) = l" by (intro int64_of_float_of_int) simp_all
  from r show "cast_float16 l = Fin (real_of_int l)" by (intro cast_float16_exact) simp
qed

lemma cast_int64_denotes:
  assumes "list_all class_index ls" and "denotes labels ls"
  shows "cast_int64 labels = ls"
proof (cases labels)
  case (IntTensor ns)
  with assms have "map int64_of_int ls = ls"
    by (intro map_idI) (simp add: list_all_iff class_index_casts)
  with IntTensor assms(2) show ?thesis by simp
next
  case (FloatTensor vs)
  from assms(1) have "map (\<lambda>l. int64_of_float (Fin (real_of_int l))) ls = ls"
    by (intro map_idI) (simp add: list_all_iff class_index_casts(2) del: int64_of_float.simps)
  with FloatTensor assms(2) show ?thesis by (simp add: comp_def)
qed

lemma distorted_inputs_denotes:
  assumes "list_all class_index ls"
    and "distorted_inputs FLAGS (images, ls) = Inr (images', labels)"
  shows "denotes labels ls"
proof -
  from assms(1) have "map cast_float16 ls = map (\<lambda>l. Fin (real_of_int l)) ls"
    by (intro map_cong) (simp_all add: list_all_iff class_index_casts)
  with assms(2) show ?thesis
    by (auto simp: distorted_inputs_def split: if_splits)
qed

lemma loss_cast_only:
  "cast_int64 labels = cast_int64 labels' \<Longrightarrow> loss g logits labels = loss g logits labels'"
  by (simp add: loss_def)

lemma loss_repeated:
  assumes "loss g logits labels = Inr (t1, g1)" and "losses g = []"
  shows "\<exists>ts. t1 = AddN ts \<and> ts = regularization_losses g @ [CrossEntropyMean logits (cast_int64 labels)]
     \<and> loss g1 logits labels =
         Inr (AddN (ts @ ts), g1\<lparr>losses := ts @ ts\<rparr>)"
  using assms by (auto simp: loss_def Let_def split: if_splits)

lemma loss_eq:
  "loss g logits labels =
     (if length (cast_int64 labels) \<noteq> length logits then Inl ValueError
      else Inr (AddN (losses g @ regularization_losses g
                        @ [CrossEntropyMean logits (cast_int64 labels)]),
                g\<lparr>losses := losses g @ regularization_losses g
                        @ [CrossEntropyMean logits (cast_int64 labels)]\<rparr>))"
  by (simp add: loss_def Let_def)

lemma cross_entropy_per_example_eq:
  assumes "length ls = length logits" and "list_all class_index ls"
    and "list_all (\<lambda>row. length row = nat NUM_CLASSES) logits"
  shows "cross_entropy_per_example logits ls =
           Inr (map (\<lambda>(row, l). ln (\<Sum>z\<leftarrow>row. exp z) - row ! nat l) (zip logits ls))"
  using assms
proof (induction ls logits rule: list_induct2)
  case Nil
  then show ?case by simp
next
  case (Cons l ls row logits)
  then have "cross_entropy_example row l = Inr (ln (\<Sum>z\<leftarrow>row. exp z) - row ! nat l)"
    by (simp add: cross_entropy_example_def class_index_def)
  with Cons show ?case by simp
qed

lemma cross_entropy_mean_eq:
  assumes "length ls = length logits" and "ls \<noteq> []" and "list_all class_index ls"
    and "list_all (\<lambda>row. length row = nat NUM_CLASSES) logits"
  shows "run (CrossEntropyMean logits ls) =
           Inr (Fin ((\<Sum>(row, l)\<leftarrow>zip logits ls. ln (\<Sum>z\<leftarrow>row. exp z) - row ! nat l)
                     / real (length ls)))"
proof -
  from assms(1,2) have "logits \<noteq> []" by auto
  with assms(2) cross_entropy_per_example_eq [OF assms(1,3,4)] show ?thesis
    by (simp add: reduce_mean_def assms(1))
qed

section \<open>Claims about the loss\<close>

text \<open>
  Claim C10. The loss casts its labels to 64-bit integers before it builds the cross
  entropy. So for labels that are class indices in \<open>[0, NUM_CLASSES)\<close>, held in a tensor
  of an integer or of a floating-point dtype, or produced by the input pipeline (which
  casts them to float16 in low-precision mode), the cast gives back the integers
  \<open>ls\<close>; what the loss returns is the sum of the collection with the mean cross entropy
  of the logits and the integer labels \<open>ls\<close> at its end (or the \<open>ValueError\<close> of a number
  of labels that is not the number of rows); that is the loss on the integer labels;
  and the mean cross entropy is the mean over the rows of \<open>ln (\<Sum>j. exp z\<^sub>j) - z\<^sub>l\<close> at
  the row's label \<open>l\<close>.
\<close>

theorem loss_casts_labels:
  assumes "list_all class_index ls"
    and "denotes labels ls \<or> distorted_inputs FLAGS (images, ls) = Inr (images', labels)"
  shows "cast_int64 labels = ls
       \<and> loss g logits labels =
           (if length ls \<noteq> length logits then Inl ValueError
            else Inr (AddN (losses g @ regularization_losses g
                              @ [CrossEntropyMean logits ls]),
                      g\<lparr>losses := losses g @ regularization_losses g
                              @ [CrossEntropyMean logits ls]\<rparr>))
       \<and> loss g logits labels = loss g logits (IntTensor ls)
       \<and> (length ls = length logits \<and> ls \<noteq> []
            \<and> list_all (\<lambda>row. length row = nat NUM_CLASSES) logits \<longrightarrow>
          run (CrossEntropyMean logits ls) =
            Inr (Fin ((\<Sum>(row, l)\<leftarrow>zip logits ls. ln (\<Sum>z\<leftarrow>row. exp z) - row ! nat l)
                      / real (length ls))))"
proof -
  from assms have d: "denotes labels ls"
    using distorted_inputs_denotes by blast
  have a: "cast_int64 labels = ls"
    using assms(1) d by (rule cast_int64_denotes)
  have b: "cast_int64 (IntTensor ls) = ls"
    using assms(1) by (intro cast_int64_denotes) simp_all
  have "loss g logits labels = loss g logits (IntTensor ls)"
    using a b by (simp add: loss_cast_only)
  moreover have "loss g logits labels =
           (if length ls \<noteq> length logits then Inl ValueError
            else Inr (AddN (losses g @ regularization_losses g
                              @ [CrossEntropyMean logits ls]),
                      g\<lparr>losses := losses g @ regularization_losses g
                              @ [CrossEntropyMean logits ls]\<rparr>))"
    unfolding loss_eq a ..
  moreover have "run (CrossEntropyMean logits ls) =
            Inr (Fin ((\<Sum>(row, l)\<leftarrow>zip logits ls. ln (\<Sum>z\<leftarrow>row. exp z) - row ! nat l)
                      / real (length ls)))"
    if "length ls = length logits" "ls \<noteq> []"
      "list_all (\<lambda>row. length row = nat NUM_CLASSES) logits"
    using that assms(1) by (intro cross_entropy_mean_eq)
  ultimately show ?thesis
    using a by blast
qed

theorem loss_casts_labels_witness:
  "list_all class_index [3, 0]
   \<and> distorted_inputs (default_flags\<lparr>use_fp16 := True\<rparr>)
       (\<lparr>shape = [2, 32, 32, 3], node = Placeholder\<rparr>, [3, 0])
     = Inr (\<lparr>shape = [2, 32, 32, 3], node = Cast Placeholder\<rparr>,
            FloatTensor [Fin 3, Fin 0])
   \<and> cast_int64 (FloatTensor [Fin 3, Fin 0]) = [3, 0]
   \<and> loss example_graph [[0, 0, 0, 0, 0, 0, 0, 0, 0, 0], [1, 0, 0, 0, 0, 0, 0, 0, 0, 0]]
         (FloatTensor [Fin 3, Fin 0])
     = Inr (AddN [Penalty 1,
                  CrossEntropyMean [[0, 0, 0, 0, 0, 0, 0, 0, 0, 0],
                                    [1, 0, 0, 0, 0, 0, 0, 0, 0, 0]] [3, 0]],
            \<lparr>regularization_losses = [Penalty 1],
             losses = [Penalty 1,
                       CrossEntropyMean [[0, 0, 0, 0, 0, 0, 0, 0, 0, 0],
                                         [1, 0, 0, 0, 0, 0, 0, 0, 0, 0]] [3, 0]]\<rparr>)
   \<and> run (CrossEntropyMean [[0, 0, 0, 0, 0, 0, 0, 0, 0, 0],
                             [1, 0, 0, 0, 0, 0, 0, 0, 0, 0]] [3, 0])
     = Inr (Fin ((ln 10 + (ln (exp 1 + 9) - 1)) / 2))"
proof -
  let ?logits = "[[0, 0, 0, 0, 0, 0, 0, 0, 0, 0], [1, 0, 0, 0, 0, 0, 0, 0, 0, 0 :: real]]"
  have c: "list_all class_index [3, 0]"
    by (simp add: class_index_def NUM_CLASSES_def)
  have d: "distorted_inputs (default_flags\<lparr>use_fp16 := True\<rparr>)
       (\<lparr>shape = [2, 32, 32, 3], node = Placeholder\<rparr>, [3, 0])
     = Inr (\<lparr>shape = [2, 32, 32, 3], node = Cast Placeholder\<rparr>,
            FloatTensor [Fin 3, Fin 0])"
    by (simp add: distorted_inputs_def default_flags_def cast_images_def cast_float16_def
        half_spacing_def)
  from d have "denotes (FloatTensor [Fin 3, Fin 0]) [3, 0]
      \<or> distorted_inputs (default_flags\<lparr>use_fp16 := True\<rparr>)
           (\<lparr>shape = [2, 32, 32, 3], node = Placeholder\<rparr>, [3, 0])
         = Inr (\<lparr>shape = [2, 32, 32, 3], node = Cast Placeholder\<rparr>,
                FloatTensor [Fin 3, Fin 0])"
    by (rule disjI2)
  from loss_casts_labels [OF c this, of example_graph ?logits]
  have "cast_int64 (FloatTensor [Fin 3, Fin 0]) = [3, 0]"
    and "loss example_graph ?logits (FloatTensor [Fin 3, Fin 0])
     = Inr (AddN [Penalty 1, CrossEntropyMean ?logits [3, 0]],
            \<lparr>regularization_losses = [Penalty 1],
             losses = [Penalty 1, CrossEntropyMean ?logits [3, 0]]\<rparr>)"
    and "run (CrossEntropyMean ?logits [3, 0])
     = Inr (Fin ((ln 10 + (ln (exp 1 + 9) - 1)) / 2))"
    by (simp_all add: example_graph_def NUM_CLASSES_def)
  with c d show ?thesis
    by simp
qed

text \<open>
  Claim C2 does not hold of the code. Each call of \<^verbatim>\<open>loss\<close> appends the registered
  penalties and its cross entropy to the collection \<^verbatim>\<open>'losses'\<close> and returns the sum
  of the whole collection. With one penalty of value 1, logits \<open>[[0, 0]]\<close> and label 1,
  the first call returns \<open>1 + ln 2\<close>, the penalty once and the cross entropy; a second
  call with the same arguments returns \<open>2 + 2 * ln 2\<close>, every term twice.
\<close>

theorem loss_second_call_doubles:
  "\<exists>t1 g1 t2 g2.
      loss example_graph [[0, 0]] (IntTensor [1]) = Inr (t1, g1)
    \<and> loss g1 [[0, 0]] (IntTensor [1]) = Inr (t2, g2)
    \<and> run t1 = Inr (Fin (1 + ln 2))
    \<and> run t2 = Inr (Fin (2 + 2 * ln 2))
    \<and> run t2 \<noteq> run t1"
proof -
  have w: "int64_of_int 1 = 1"
    by (intro int64_of_int_id) simp_all
  have "ln (2::real) > 0" by simp
  then have ne: "2 + 2 * ln (2::real) \<noteq> 1 + ln 2" by linarith
  show ?thesis
    using ne
    by (simp add: loss_def example_graph_def Let_def w cross_entropy_example_def
        reduce_mean_def)
qed

section \<open>The learning-rate schedule\<close>

lemma read_all_length: "read_all rd ws = Inr xs \<Longrightarrow> length xs = length ws"
  by (induction ws arbitrary: xs) (auto split: option.splits sum.splits)

lemma read_all_error: "read_all rd ws = Inl e \<Longrightarrow> e = ValueError"
  by (induction ws arbitrary: e) (auto split: option.splits sum.splits)

lemma split_comma_nonempty: "split_comma s \<noteq> []"
  by (induction s) (auto split: list.splits)

lemma sorted_below:
  assumes "sorted bs" and "i < length bs"
  shows "(bs ! i < x) = (i < length (takeWhile (\<lambda>b. b < x) bs))"
proof
  assume "i < length (takeWhile (\<lambda>b. b < x) bs)"
  then have "takeWhile (\<lambda>b. b < x) bs ! i \<in> set (takeWhile (\<lambda>b. b < x) bs)"
    and eq: "takeWhile (\<lambda>b. b < x) bs ! i = bs ! i"
    by (rule nth_mem, rule takeWhile_nth)
  then have "takeWhile (\<lambda>b. b < x) bs ! i < x"
    by (blast dest: set_takeWhileD)
  with eq show "bs ! i < x" by simp
next
  assume below: "bs ! i < x"
  show "i < length (takeWhile (\<lambda>b. b < x) bs)"
  proof (rule ccontr)
    let ?k = "length (takeWhile (\<lambda>b. b < x) bs)"
    assume "\<not> i < ?k"
    then have "?k \<le> i" by simp
    with assms(2) have "?k < length bs" by simp
    then have "\<not> bs ! ?k < x"
      by (rule nth_length_takeWhile)
    moreover have "bs ! ?k \<le> bs ! i"
      using assms \<open>?k \<le> i\<close> by (simp add: sorted_nth_mono)
    ultimately show False using below by simp
  qed
qed

lemma filter_single:
  assumes "\<forall>i<m. fst (g i) = (Suc i = k)"
  shows "filter fst (map g [0..<m]) = (if 0 < k \<and> k \<le> m then [g (k - 1)] else [])"
  using assms
proof (induction m)
  case 0
  then show ?case by auto
next
  case (Suc m)
  then have "filter fst (map g [0..<m]) = (if 0 < k \<and> k \<le> m then [g (k - 1)] else [])"
    by simp
  moreover have "fst (g m) = (Suc m = k)"
    using Suc.prems by simp
  ultimately show ?case by auto
qed

lemma middle_conditions:
  assumes "length vs = length bs + 1" and "bs \<noteq> []"
  shows "map (\<lambda>(low, high, v). (above (Fin x) low \<and> at_most (Fin x) high, v))
           (zip (butlast bs) (zip (tl bs) (butlast (tl vs))))
         = map (\<lambda>i. (bs ! i < x \<and> x \<le> bs ! Suc i, vs ! Suc i)) [0..<length bs - 1]"
  using assms
  by (intro nth_equalityI) (simp_all add: nth_butlast nth_tl)

lemma piecewise_constant_sorted:
  assumes len: "length vs = length bs + 1" and ne: "bs \<noteq> []" and srt: "sorted bs"
  shows "piecewise_constant (Fin x) bs vs = Inr (vs ! length (takeWhile (\<lambda>b. b < x) bs))"
proof -
  let ?k = "length (takeWhile (\<lambda>b. b < x) bs)"
  let ?n = "length bs"
  let ?g = "\<lambda>i. (bs ! i < x \<and> x \<le> bs ! Suc i, vs ! Suc i)"
  have n: "0 < ?n" using ne by simp
  have kn: "?k \<le> ?n" by (rule length_takeWhile_le)
  have below: "\<And>i. i < ?n \<Longrightarrow> (bs ! i < x) = (i < ?k)"
    using srt by (rule sorted_below)
  have "\<forall>i<?n - 1. fst (?g i) = (Suc i = ?k)"
  proof (intro allI impI)
    fix i assume i: "i < ?n - 1"
    then have "(bs ! i < x) = (i < ?k)" and "(bs ! Suc i < x) = (Suc i < ?k)"
      by (simp_all add: below)
    then show "fst (?g i) = (Suc i = ?k)" by auto
  qed
  then have mid: "filter fst (map ?g [0..<?n - 1]) =
      (if 0 < ?k \<and> ?k \<le> ?n - 1 then [?g (?k - 1)] else [])"
    by (rule filter_single)
  have first: "at_most (Fin x) (hd bs) = (?k = 0)"
    using below [of 0] n ne by (auto simp: hd_conv_nth)
  have lst: "above (Fin x) (last bs) = (?k = ?n)"
    using below [of "?n - 1"] n kn ne by (auto simp: last_conv_nth)
  have "vs \<noteq> []" using len by auto
  then have vs: "hd vs = vs ! 0" "last vs = vs ! ?n"
    using len by (simp_all add: hd_conv_nth last_conv_nth)
  have cond: "conditions (Fin x) bs vs =
      (?k = 0, vs ! 0) # (?k = ?n, vs ! ?n) # map ?g [0..<?n - 1]"
    unfolding conditions_def middle_conditions [OF len ne] first lst vs ..
  have "filter fst (conditions (Fin x) bs vs) = [(True, vs ! ?k)]"
  proof -
    consider "?k = 0" | "?k = ?n" | "0 < ?k" "?k \<le> ?n - 1"
      using kn by linarith
    then show ?thesis
    proof cases
      case 1
      with n have "filter fst (map ?g [0..<?n - 1]) = []" "?k \<noteq> ?n"
        using mid by simp_all
      with 1 show ?thesis
        unfolding cond by simp
    next
      case 2
      with n have "\<not> (0 < ?k \<and> ?k \<le> ?n - 1)" and k0: "?k \<noteq> 0"
        by linarith+
      with mid have "filter fst (map ?g [0..<?n - 1]) = []" "?k \<noteq> 0"
        by simp_all
      with 2 show ?thesis
        unfolding cond by simp
    next
      case 3
      then have k: "?k \<noteq> 0" "?k \<noteq> ?n" using n by linarith+
      from 3 n have "?k - 1 < ?n" "Suc (?k - 1) = ?k" "?k < ?n" by linarith+
      then have "?g (?k - 1) = (True, vs ! ?k)"
        using below [of "?k - 1"] below [of ?k] 3 by simp
      with 3 mid have "filter fst (map ?g [0..<?n - 1]) = [(True, vs ! ?k)]"
        by simp
      with k show ?thesis
        unfolding cond by simp
    qed
  qed
  then show ?thesis
    using ne len by (auto simp add: piecewise_constant_def)
qed

lemma product_fits:
  assumes "fits_int64 (sint step * b)"
  shows "sint ((step :: int64) * word_of_int b) = sint step * b"
proof -
  have "sint (step * word_of_int b) = signed_take_bit 63 (sint step * signed_take_bit 63 b)"
    by (simp add: sint_word_ariths signed_of_int)
  also have "\<dots> = signed_take_bit 63
      (signed_take_bit 63 (sint step) * signed_take_bit 63 (signed_take_bit 63 b))"
    by (simp only: signed_take_bit_mult)
  also have "\<dots> = signed_take_bit 63 (signed_take_bit 63 (sint step) * signed_take_bit 63 b)"
    by simp
  also have "\<dots> = signed_take_bit 63 (sint step * b)"
    by (simp only: signed_take_bit_mult)
  also have "\<dots> = sint step * b"
    using assms by (simp add: signed_take_bit_int_eq_self_iff fits_int64_def)
  finally show ?thesis .
qed

lemma num_epoch_quotient:
  "NUM_EXAMPLES_PER_EPOCH_FOR_TRAIN ext \<noteq> 0 \<Longrightarrow>
   num_epoch ext FLAGS step =
     Fin (real_of_int (sint (step * word_of_int (batch_size FLAGS)))
          / real_of_int (NUM_EXAMPLES_PER_EPOCH_FOR_TRAIN ext))"
  by (simp add: num_epoch_def Let_def)

lemma lr_schedule_cases:
  "lr_schedule ext FLAGS = Inl ValueError \<or> lr_schedule ext FLAGS = Inl AssertionError
   \<or> (\<exists>boundaries values.
         lr_schedule ext FLAGS = Inr (boundaries, values)
       \<and> read_all (np_float64 ext) (split_comma (lr_boundaries FLAGS)) = Inr boundaries
       \<and> read_all (py_float ext) (split_comma (lr_values FLAGS)) = Inr values
       \<and> length values = length boundaries + 1)"
proof (cases "read_all (np_float64 ext) (split_comma (lr_boundaries FLAGS))")
  case (Inl e)
  then show ?thesis
    using read_all_error [OF Inl] by (simp add: lr_schedule_def)
next
  case b: (Inr bs)
  show ?thesis
  proof (cases "read_all (py_float ext) (split_comma (lr_values FLAGS))")
    case (Inl e)
    then show ?thesis
      using read_all_error [OF Inl] b by (simp add: lr_schedule_def)
  next
    case (Inr vs)
    with b show ?thesis
      by (simp add: lr_schedule_def)
  qed
qed

section \<open>One training step, in any admissible order\<close>

lemma in_all_operations:
  "x \<in> set (all_operations B) =
     (case x of
        update_variable v \<Rightarrow> v \<in> set (trainable_variables B)
      | average_variable v \<Rightarrow> v \<in> set (trainable_variables B)
      | _ \<Rightarrow> True)"
  by (cases x) (auto simp: all_operations_def)

lemma all_operations_executed:
  assumes "list_all (\<lambda>x. x \<in> set executed) (all_operations B)"
  shows "apply_gradient_op \<in> set executed" and "read_decay \<in> set executed"
    and "v \<in> set (trainable_variables B) \<Longrightarrow> update_variable v \<in> set executed"
    and "v \<in> set (trainable_variables B) \<Longrightarrow> average_variable v \<in> set executed"
  using assms by (auto simp: all_operations_def list_all_iff)

lemma precedes_other: "x \<noteq> a \<Longrightarrow> x \<noteq> b \<Longrightarrow> precedes a b (x # xs) = precedes a b xs"
  by simp

lemma exec_inv:
  assumes inv: "step_inv (the_backend G) rate s0 executed s"
    and rate: "lr G (global_step s0) = Inr rate"
    and op: "x \<in> set (all_operations (the_backend G))"
    and new: "x \<notin> set executed"
    and waits: "list_all (\<lambda>y. y \<in> set executed) (waits_for (the_backend G) x)"
  shows "\<exists>s'. exec G x s = Inr s' \<and> step_inv (the_backend G) rate s0 (x # executed) s'"
proof (cases x)
  case loss_averages_op
  with inv op show ?thesis by (simp add: step_inv_def)
next
  case grads_op
  from inv new grads_op have "\<forall>v. variables s v = variables s0 v"
    by (auto simp: step_inv_def)
  then have "variables s = variables s0" by (simp add: fun_eq_iff)
  with inv op grads_op show ?thesis by (simp add: step_inv_def)
next
  case (update_variable v)
  from new update_variable have nv: "update_variable v \<notin> set executed" by simp
  from inv waits update_variable
  have g: "grads s = Some (compute_gradients (the_backend G) (variables s0))"
    by (simp add: step_inv_def)
  from op update_variable have t: "v \<in> set (trainable_variables (the_backend G))"
    by (simp add: in_all_operations)
  with inv nv have "apply_gradient_op \<notin> set executed"
    by (auto simp: step_inv_def)
  with inv have n: "global_step s = global_step s0" by (simp add: step_inv_def)
  from inv nv have old: "variables s v = variables s0 v"
    by (simp add: step_inv_def)
  have e: "exec G x s =
      Inr (s\<lparr>variables := (variables s)(v := descent (the_backend G) rate (variables s0) v)\<rparr>)"
    by (simp add: update_variable g n rate old descent_def split: option.splits)
  from waits update_variable have go: "grads_op \<in> set executed" by simp
  have "step_inv (the_backend G) rate s0 (x # executed)
      (s\<lparr>variables := (variables s)(v := descent (the_backend G) rate (variables s0) v)\<rparr>)"
    using inv op nv go t unfolding update_variable step_inv_def by auto
  with e show ?thesis by simp
next
  case apply_gradient_op
  with inv op waits new show ?thesis
    by (auto simp: step_inv_def list_all_iff)
next
  case read_decay
  with inv op show ?thesis by (simp add: step_inv_def)
next
  case (average_variable v)
  from inv waits average_variable obtain d where "decay s = Some d"
    by (auto simp: step_inv_def)
  with inv op average_variable new show ?thesis
    by (auto simp: step_inv_def)
next
  case update_ops
  with inv op show ?thesis by (simp add: step_inv_def)
next
  case train_op
  with inv op show ?thesis by (simp add: step_inv_def)
qed


lemma exec_other:
  assumes "exec G x s = Inr s'"
  shows "x \<noteq> read_decay \<Longrightarrow> decay s' = decay s"
    and "(\<And>v. x \<noteq> average_variable v) \<Longrightarrow> variable_averages s' = variable_averages s"
    and "x \<noteq> average_variable v \<Longrightarrow> variable_averages s' v = variable_averages s v"
  using assms by (cases x; auto split: option.splits sum.splits)+

lemma decay_of_step:
  assumes inv: "step_inv (the_backend G) rate s0 executed s"
    and new: "x \<notin> set executed"
    and e: "exec G x s = Inr s'"
  shows "decay_of s0 (x # executed) xs s' = decay_of s0 executed (x # xs) s"
proof (cases x)
  case read_decay
  with inv new e show ?thesis by (auto simp: decay_of_def step_inv_def)
next
  case apply_gradient_op
  with inv new e show ?thesis by (auto simp: decay_of_def step_inv_def)
next
  case loss_averages_op
  with exec_other(1) [OF e] show ?thesis by (simp add: decay_of_def)
next
  case grads_op
  with exec_other(1) [OF e] show ?thesis by (simp add: decay_of_def)
next
  case (update_variable u)
  with exec_other(1) [OF e] show ?thesis by (simp add: decay_of_def)
next
  case (average_variable u)
  with exec_other(1) [OF e] show ?thesis by (simp add: decay_of_def)
next
  case update_ops
  with exec_other(1) [OF e] show ?thesis by (simp add: decay_of_def)
next
  case train_op
  with exec_other(1) [OF e] show ?thesis by (simp add: decay_of_def)
qed

lemma average_of_step:
  assumes inv: "step_inv (the_backend G) rate s0 executed s"
    and op: "x \<in> set (all_operations (the_backend G))"
    and new: "x \<notin> set executed"
    and waits: "list_all (\<lambda>y. y \<in> set executed) (waits_for (the_backend G) x)"
    and e: "exec G x s = Inr s'"
  shows "average_of (the_backend G) rate s0 (x # executed) xs s' v
       = average_of (the_backend G) rate s0 executed (x # xs) s v"
proof (cases "x = average_variable v")
  case True
  with waits have rd: "read_decay \<in> set executed" by simp
  with inv obtain d where d: "decay s = Some d" by (auto simp: step_inv_def)
  from op True have t: "v \<in> set (trainable_variables (the_backend G))"
    by (simp add: in_all_operations)
  from new True have nv: "average_variable v \<notin> set executed" by simp
  with inv have a: "variable_averages s v = variable_averages s0 v"
    by (simp add: step_inv_def)
  from inv have p: "variables s v =
      (if update_variable v \<in> set executed then descent (the_backend G) rate (variables s0) v
       else variables s0 v)"
    by (simp add: step_inv_def)
  from e True d have "variable_averages s' v =
      assign_moving_average d (variable_averages s v) (variables s v)"
    by auto
  with True nv t rd d a p show ?thesis
    by (simp add: average_of_def decay_of_def)
next
  case False
  note other = exec_other(3) [OF e False]
  note dec = decay_of_step [OF inv new e]
  show ?thesis
  proof (cases "x = update_variable v")
    case True
    with other dec show ?thesis by (simp add: average_of_def)
  next
    case u: False
    with False other dec show ?thesis by (simp add: average_of_def)
  qed
qed

lemma step_inv_start: "step_inv B rate s [] s"
  by (simp add: step_inv_def)

lemma run_step_from:
  assumes rate: "lr G (global_step s0) = Inr rate"
  shows "step_inv (the_backend G) rate s0 executed s
     \<Longrightarrow> schedule_from (the_backend G) executed xs
     \<Longrightarrow> \<exists>s' final. run_step G xs s = Inr s'
           \<and> step_inv (the_backend G) rate s0 final s'
           \<and> list_all (\<lambda>x. x \<in> set final) (all_operations (the_backend G))
           \<and> (\<forall>v. average_of (the_backend G) rate s0 final [] s' v
                  = average_of (the_backend G) rate s0 executed xs s v)"
proof (induction xs arbitrary: executed s)
  case Nil
  then show ?case by auto
next
  case (Cons x xs)
  from Cons.prems(2) have op: "x \<in> set (all_operations (the_backend G))"
    and new: "x \<notin> set executed"
    and waits: "list_all (\<lambda>y. y \<in> set executed) (waits_for (the_backend G) x)"
    and rest: "schedule_from (the_backend G) (x # executed) xs"
    by simp_all
  from exec_inv [OF Cons.prems(1) rate op new waits] obtain s1
    where e: "exec G x s = Inr s1"
      and inv1: "step_inv (the_backend G) rate s0 (x # executed) s1"
    by blast
  from Cons.IH [OF inv1 rest] obtain s' final
    where r: "run_step G xs s1 = Inr s'"
      and i: "step_inv (the_backend G) rate s0 final s'"
      and a: "list_all (\<lambda>x. x \<in> set final) (all_operations (the_backend G))"
      and v: "\<forall>v. average_of (the_backend G) rate s0 final [] s' v
                = average_of (the_backend G) rate s0 (x # executed) xs s1 v"
    by blast
  from v average_of_step [OF Cons.prems(1) op new waits e]
  have "\<forall>v. average_of (the_backend G) rate s0 final [] s' v
          = average_of (the_backend G) rate s0 executed (x # xs) s v"
    by simp
  with e r i a show ?case by auto
qed

lemma run_step_valid:
  assumes sched: "valid_schedule (the_backend G) xs"
    and rate: "lr G (global_step s) = Inr rate"
  shows "\<exists>s'. run_step G xs s = Inr s'
     \<and> global_step s' = global_step s + 1
     \<and> (\<forall>v. variables s' v =
           (if v \<in> set (trainable_variables (the_backend G))
            then descent (the_backend G) rate (variables s) v else variables s v))
     \<and> (\<forall>v. variable_averages s' v =
           (if v \<in> set (trainable_variables (the_backend G))
            then assign_moving_average
                   (variables_decay
                      (if precedes apply_gradient_op read_decay xs then global_step s + 1
                       else global_step s))
                   (variable_averages s v)
                   (if precedes (update_variable v) (average_variable v) xs
                    then descent (the_backend G) rate (variables s) v else variables s v)
            else variable_averages s v))"
proof -
  let ?B = "the_backend G"
  from sched have "schedule_from ?B [] xs" by (simp add: valid_schedule_def)
  from run_step_from [OF rate step_inv_start this] obtain s' final
    where r: "run_step G xs s = Inr s'"
      and i: "step_inv ?B rate s final s'"
      and a: "list_all (\<lambda>x. x \<in> set final) (all_operations ?B)"
      and v: "\<forall>v. average_of ?B rate s final [] s' v = average_of ?B rate s [] xs s v"
    by blast
  note ex = all_operations_executed [OF a]
  from i have sub: "set final \<subseteq> set (all_operations ?B)" by (simp add: step_inv_def)
  have tr: "update_variable v \<in> set final \<longleftrightarrow> v \<in> set (trainable_variables ?B)"
    "average_variable v \<in> set final \<longleftrightarrow> v \<in> set (trainable_variables ?B)" for v
    using sub ex(3,4) [of v] by (auto simp: in_all_operations subset_iff split: operation.splits)
  from i ex(1) have g: "global_step s' = global_step s + 1" by (simp add: step_inv_def)
  from i have p: "\<forall>v. variables s' v =
      (if v \<in> set (trainable_variables ?B) then descent ?B rate (variables s) v
       else variables s v)"
    by (simp add: step_inv_def tr)
  have "variable_averages s' v = average_of ?B rate s [] xs s v" for v
  proof (cases "v \<in> set (trainable_variables ?B)")
    case True
    with v [rule_format, of v] show ?thesis by (simp add: average_of_def tr)
  next
    case False
    with i have "variable_averages s' v = variable_averages s v"
      by (simp add: step_inv_def tr)
    with False show ?thesis by (simp add: average_of_def)
  qed
  then have q: "\<forall>v. variable_averages s' v =
      (if v \<in> set (trainable_variables ?B)
       then assign_moving_average
              (variables_decay
                 (if precedes apply_gradient_op read_decay xs then global_step s + 1
                  else global_step s))
              (variable_averages s v)
              (if precedes (update_variable v) (average_variable v) xs
               then descent ?B rate (variables s) v else variables s v)
       else variable_averages s v)"
    by (simp add: average_of_def decay_of_def)
  from r g p q show ?thesis by blast
qed

lemma increment_fits:
  assumes "sint (n :: int64) < 2 ^ 63 - 1"
  shows "sint (n + 1) = sint n + 1"
proof -
  have "- (2 ^ 63) \<le> sint n" using sint_ge [of n] by simp
  with assms have "signed_take_bit 63 (sint n + 1) = sint n + 1"
    by (simp add: signed_take_bit_int_eq_self_iff)
  then show ?thesis by (simp add: sint_word_ariths)
qed

section \<open>The examples of the training claims\<close>

lemma example_schedule:
  "lr_schedule example_externals default_flags = Inr ([150, 225], [1 / 10, 1 / 100, 1 / 1000])"
  by (simp add: lr_schedule_def example_externals_def default_flags_def example_reader_def)

lemma example_train:
  "train example_externals default_flags example_backend =
     Inr \<lparr>lr = (\<lambda>step. piecewise_constant (num_epoch example_externals default_flags step)
                  [150, 225] [1 / 10, 1 / 100, 1 / 1000]),
          the_backend = example_backend\<rparr>"
  using example_schedule
  by (simp add: train_def fits_int64_def example_externals_def default_flags_def)

lemma example_rate:
  "piecewise_constant (num_epoch example_externals default_flags 100000)
     [150, 225] [1 / 10, 1 / 100, 1 / 1000] = Inr (1 / 1000)"
  by (simp add: piecewise_constant_def conditions_def num_epoch_def example_externals_def
      default_flags_def)

lemma example_rate_0:
  "piecewise_constant (num_epoch example_externals default_flags 0)
     [150, 225] [1 / 10, 1 / 100, 1 / 1000] = Inr (1 / 10)"
  by (simp add: piecewise_constant_def conditions_def num_epoch_def example_externals_def
      default_flags_def)

lemma valid_examples:
  "valid_schedule example_backend average_first"
  "valid_schedule example_backend average_between"
  "valid_schedule example_backend average_last"
  "valid_schedule example_backend (all_operations example_backend)"
  by (simp_all add: valid_schedule_def average_first_def average_between_def average_last_def
      all_operations_def example_backend_def)

lemma example_decay:
  "variables_decay 100000 = 9999 / 10000" "variables_decay 100001 = 9999 / 10000"
  "variables_decay 0 = 1 / 10" "variables_decay 1 = 2 / 11"
  by (simp_all add: variables_decay_def MOVING_AVERAGE_DECAY_def)

section \<open>Claims about training\<close>

text \<open>
  Claim C6. Setting up training fails whenever the number of learning-rate values is not
  the number of boundaries plus one: with the \<open>AssertionError\<close> of line 367 when the
  lines before it pass (a batch size that is not zero, integers that fit 64 bits, and
  numbers that can be read), and with the error of the first of those lines that fails
  otherwise; a batch size of zero fails at line 360 in any case. When the set-up
  succeeds, and the boundaries are in ascending order, the learning rate at every step
  is \<open>values[i]\<close>, where \<open>i\<close> counts the boundaries strictly below the quotient
  \<open>global_step * batch_size / NUM_EXAMPLES_PER_EPOCH_FOR_TRAIN\<close>, the product being the
  64-bit product: a piecewise-constant function of that quotient, which is the quotient
  of the integers whenever their product fits 64 bits.
\<close>

theorem learning_rate_schedule:
  "(batch_size FLAGS = 0 \<longrightarrow> train ext FLAGS B = Inl ZeroDivisionError)
   \<and> (length (split_comma (lr_values FLAGS)) \<noteq> length (split_comma (lr_boundaries FLAGS)) + 1
      \<longrightarrow> (train ext FLAGS B = Inl ZeroDivisionError \<or> train ext FLAGS B = Inl OverflowError
           \<or> train ext FLAGS B = Inl ValueError \<or> train ext FLAGS B = Inl AssertionError)
        \<and> (batch_size FLAGS \<noteq> 0 \<and> fits_int64 (batch_size FLAGS)
             \<and> fits_int64 (NUM_EXAMPLES_PER_EPOCH_FOR_TRAIN ext)
             \<and> (\<exists>boundaries.
                   read_all (np_float64 ext) (split_comma (lr_boundaries FLAGS)) = Inr boundaries)
             \<and> (\<exists>values.
                   read_all (py_float ext) (split_comma (lr_values FLAGS)) = Inr values)
           \<longrightarrow> train ext FLAGS B = Inl AssertionError))
   \<and> (\<forall>G. train ext FLAGS B = Inr G \<longrightarrow>
        (\<exists>boundaries values.
           read_all (np_float64 ext) (split_comma (lr_boundaries FLAGS)) = Inr boundaries
         \<and> read_all (py_float ext) (split_comma (lr_values FLAGS)) = Inr values
         \<and> length values = length boundaries + 1
         \<and> (sorted boundaries \<and> NUM_EXAMPLES_PER_EPOCH_FOR_TRAIN ext \<noteq> 0 \<longrightarrow>
              (\<forall>step.
                 lr G step =
                   Inr (values ! length (takeWhile
                     (\<lambda>b. b < real_of_int (sint (step * word_of_int (batch_size FLAGS)))
                              / real_of_int (NUM_EXAMPLES_PER_EPOCH_FOR_TRAIN ext))
                     boundaries))
               \<and> (fits_int64 (sint step * batch_size FLAGS) \<longrightarrow>
                    lr G step =
                      Inr (values ! length (takeWhile
                        (\<lambda>b. b < real_of_int (sint step * batch_size FLAGS)
                                 / real_of_int (NUM_EXAMPLES_PER_EPOCH_FOR_TRAIN ext))
                        boundaries)))))))"
proof (intro conjI impI allI)
  assume "batch_size FLAGS = 0"
  then show "train ext FLAGS B = Inl ZeroDivisionError" by (simp add: train_def)
next
  assume ne: "length (split_comma (lr_values FLAGS))
      \<noteq> length (split_comma (lr_boundaries FLAGS)) + 1"
  have no: "lr_schedule ext FLAGS \<noteq> Inr (bs, vs)" for bs vs
  proof
    assume "lr_schedule ext FLAGS = Inr (bs, vs)"
    then have "read_all (np_float64 ext) (split_comma (lr_boundaries FLAGS)) = Inr bs"
      "read_all (py_float ext) (split_comma (lr_values FLAGS)) = Inr vs"
      "length bs + 1 = length vs"
      by (auto simp: lr_schedule_def split: sum.splits if_splits)
    with ne show False by (simp add: read_all_length)
  qed
  with lr_schedule_cases [of ext FLAGS]
  have err: "lr_schedule ext FLAGS = Inl ValueError \<or> lr_schedule ext FLAGS = Inl AssertionError"
    by auto
  then show "train ext FLAGS B = Inl ZeroDivisionError \<or> train ext FLAGS B = Inl OverflowError
      \<or> train ext FLAGS B = Inl ValueError \<or> train ext FLAGS B = Inl AssertionError"
    by (auto simp: train_def)
  assume ok: "batch_size FLAGS \<noteq> 0 \<and> fits_int64 (batch_size FLAGS)
      \<and> fits_int64 (NUM_EXAMPLES_PER_EPOCH_FOR_TRAIN ext)
      \<and> (\<exists>boundaries.
            read_all (np_float64 ext) (split_comma (lr_boundaries FLAGS)) = Inr boundaries)
      \<and> (\<exists>values. read_all (py_float ext) (split_comma (lr_values FLAGS)) = Inr values)"
  then obtain bs vs
    where "read_all (np_float64 ext) (split_comma (lr_boundaries FLAGS)) = Inr bs"
      and "read_all (py_float ext) (split_comma (lr_values FLAGS)) = Inr vs"
    by blast
  with no [of bs vs] have "lr_schedule ext FLAGS = Inl AssertionError"
    by (simp add: lr_schedule_def split: if_splits)
  with ok show "train ext FLAGS B = Inl AssertionError" by (simp add: train_def)
next
  fix G
  assume t: "train ext FLAGS B = Inr G"
  then obtain bs vs where s: "lr_schedule ext FLAGS = Inr (bs, vs)"
    and G: "lr G = (\<lambda>step. piecewise_constant (num_epoch ext FLAGS step) bs vs)"
    by (auto simp: train_def split: if_splits sum.splits)
  from s have rb: "read_all (np_float64 ext) (split_comma (lr_boundaries FLAGS)) = Inr bs"
    and rv: "read_all (py_float ext) (split_comma (lr_values FLAGS)) = Inr vs"
    and len: "length vs = length bs + 1"
    by (auto simp: lr_schedule_def split: sum.splits if_splits)
  have ne: "bs \<noteq> []"
    using read_all_length [OF rb] split_comma_nonempty [of "lr_boundaries FLAGS"] by auto
  have rate: "lr G step =
        Inr (vs ! length (takeWhile
          (\<lambda>b. b < real_of_int (sint (step * word_of_int (batch_size FLAGS)))
                   / real_of_int (NUM_EXAMPLES_PER_EPOCH_FOR_TRAIN ext))
          bs))
      \<and> (fits_int64 (sint step * batch_size FLAGS) \<longrightarrow>
           lr G step =
             Inr (vs ! length (takeWhile
               (\<lambda>b. b < real_of_int (sint step * batch_size FLAGS)
                        / real_of_int (NUM_EXAMPLES_PER_EPOCH_FOR_TRAIN ext))
               bs)))"
    if srt: "sorted bs" and n: "NUM_EXAMPLES_PER_EPOCH_FOR_TRAIN ext \<noteq> 0" for step
  proof -
    have wrapped: "lr G step =
        Inr (vs ! length (takeWhile
          (\<lambda>b. b < real_of_int (sint (step * word_of_int (batch_size FLAGS)))
                   / real_of_int (NUM_EXAMPLES_PER_EPOCH_FOR_TRAIN ext))
          bs))"
      unfolding G num_epoch_quotient [OF n] by (rule piecewise_constant_sorted [OF len ne srt])
    have "lr G step =
        Inr (vs ! length (takeWhile
          (\<lambda>b. b < real_of_int (sint step * batch_size FLAGS)
                   / real_of_int (NUM_EXAMPLES_PER_EPOCH_FOR_TRAIN ext))
          bs))"
      if "fits_int64 (sint step * batch_size FLAGS)"
      using wrapped unfolding product_fits [OF that] .
    with wrapped show ?thesis by blast
  qed
  with rb rv len
  show "\<exists>boundaries values.
           read_all (np_float64 ext) (split_comma (lr_boundaries FLAGS)) = Inr boundaries
         \<and> read_all (py_float ext) (split_comma (lr_values FLAGS)) = Inr values
         \<and> length values = length boundaries + 1
         \<and> (sorted boundaries \<and> NUM_EXAMPLES_PER_EPOCH_FOR_TRAIN ext \<noteq> 0 \<longrightarrow>
              (\<forall>step.
                 lr G step =
                   Inr (values ! length (takeWhile
                     (\<lambda>b. b < real_of_int (sint (step * word_of_int (batch_size FLAGS)))
                              / real_of_int (NUM_EXAMPLES_PER_EPOCH_FOR_TRAIN ext))
                     boundaries))
               \<and> (fits_int64 (sint step * batch_size FLAGS) \<longrightarrow>
                    lr G step =
                      Inr (values ! length (takeWhile
                        (\<lambda>b. b < real_of_int (sint step * batch_size FLAGS)
                                 / real_of_int (NUM_EXAMPLES_PER_EPOCH_FOR_TRAIN ext))
                        boundaries)))))"
    by blast
qed


theorem learning_rate_schedule_witness:
  "(\<exists>G. train example_externals default_flags example_backend = Inr G
       \<and> lr G 0 = Inr (1 / 10)
       \<and> lr G 58593 = Inr (1 / 10) \<and> lr G 58594 = Inr (1 / 100)
       \<and> lr G 87890 = Inr (1 / 100) \<and> lr G 87891 = Inr (1 / 1000))
   \<and> train example_externals (default_flags\<lparr>lr_values := ''0.1,0.01''\<rparr>) example_backend
       = Inl AssertionError
   \<and> train example_externals (default_flags\<lparr>batch_size := 0\<rparr>) example_backend
       = Inl ZeroDivisionError"
proof -
  let ?G = "\<lparr>lr = (\<lambda>step. piecewise_constant (num_epoch example_externals default_flags step)
                  [150, 225] [1 / 10, 1 / 100, 1 / 1000]),
          the_backend = example_backend\<rparr>"
  have bs: "read_all (np_float64 example_externals) (split_comma (lr_boundaries default_flags))
      = Inr [150, 225]"
    by (simp add: example_externals_def default_flags_def example_reader_def)
  have vs: "read_all (py_float example_externals) (split_comma (lr_values default_flags))
      = Inr [1 / 10, 1 / 100, 1 / 1000]"
    by (simp add: example_externals_def default_flags_def example_reader_def)
  have n: "NUM_EXAMPLES_PER_EPOCH_FOR_TRAIN example_externals = 50000"
    and b: "batch_size default_flags = 128"
    by (simp_all add: example_externals_def default_flags_def)
  have n0: "NUM_EXAMPLES_PER_EPOCH_FOR_TRAIN example_externals \<noteq> 0"
    by (simp add: n)
  have srt: "sorted [150, 225 :: real]" by simp
  from learning_rate_schedule [of default_flags example_externals example_backend] example_train
  obtain bs' vs'
    where "read_all (np_float64 example_externals) (split_comma (lr_boundaries default_flags))
        = Inr bs'"
      and "read_all (py_float example_externals) (split_comma (lr_values default_flags))
        = Inr vs'"
      and rr: "sorted bs' \<and> NUM_EXAMPLES_PER_EPOCH_FOR_TRAIN example_externals \<noteq> 0 \<longrightarrow>
          (\<forall>step.
             lr ?G step =
               Inr (vs' ! length (takeWhile
                 (\<lambda>b. b < real_of_int (sint (step * word_of_int (batch_size default_flags)))
                          / real_of_int (NUM_EXAMPLES_PER_EPOCH_FOR_TRAIN example_externals))
                 bs'))
           \<and> (fits_int64 (sint step * batch_size default_flags) \<longrightarrow>
                lr ?G step =
                  Inr (vs' ! length (takeWhile
                    (\<lambda>b. b < real_of_int (sint step * batch_size default_flags)
                             / real_of_int (NUM_EXAMPLES_PER_EPOCH_FOR_TRAIN example_externals))
                    bs'))))"
    by blast
  with bs vs have e: "bs' = [150, 225]" "vs' = [1 / 10, 1 / 100, 1 / 1000]"
    by simp_all
  from rr [unfolded e] srt n0
  have r: "fits_int64 (sint step * batch_size default_flags) \<Longrightarrow>
      lr ?G step =
        Inr ([1 / 10, 1 / 100, 1 / 1000] !
          length (takeWhile
            (\<lambda>b. b < real_of_int (sint step * batch_size default_flags)
                     / real_of_int (NUM_EXAMPLES_PER_EPOCH_FOR_TRAIN example_externals))
            [150, 225]))"
    for step
    by blast
  have "lr ?G 0 = Inr (1 / 10)"
    using r [of 0] by (simp add: fits_int64_def n b)
  moreover have "lr ?G 58593 = Inr (1 / 10)"
    using r [of 58593] by (simp add: fits_int64_def n b)
  moreover have "lr ?G 58594 = Inr (1 / 100)"
    using r [of 58594] by (simp add: fits_int64_def n b)
  moreover have "lr ?G 87890 = Inr (1 / 100)"
    using r [of 87890] by (simp add: fits_int64_def n b)
  moreover have "lr ?G 87891 = Inr (1 / 1000)"
    using r [of 87891] by (simp add: fits_int64_def n b)
  moreover have "train example_externals (default_flags\<lparr>lr_values := ''0.1,0.01''\<rparr>)
      example_backend = Inl AssertionError"
    using learning_rate_schedule [of "default_flags\<lparr>lr_values := ''0.1,0.01''\<rparr>"
        example_externals example_backend]
    by (simp add: example_externals_def default_flags_def example_reader_def fits_int64_def)
  moreover have "train example_externals (default_flags\<lparr>batch_size := 0\<rparr>) example_backend
      = Inl ZeroDivisionError"
    using learning_rate_schedule [of "default_flags\<lparr>batch_size := 0\<rparr>"
        example_externals example_backend]
    by simp
  ultimately show ?thesis
    using example_train by simp
qed

text \<open>
  Claim C8, as the code has it. In whatever admissible order the operations of a step
  run, a step in which the schedule yields the rate \<open>rate\<close> increments the 64-bit step
  counter by one (by exactly one as a number, unless the counter is at its maximum) and
  replaces every trainable variable that has a gradient by \<open>variable - rate * gradient\<close>,
  the gradient being that of the total loss at the variables as they were before the
  step; a variable without a gradient, or with a gradient of zero, and a variable that
  is not trainable, keep their values. Nothing is said in the other direction: a
  variable whose gradient is not zero may keep its value.
\<close>

theorem training_step_update:
  assumes "valid_schedule (the_backend G) xs" and "lr G (global_step s) = Inr rate"
  shows "\<exists>s'. run_step G xs s = Inr s'
     \<and> global_step s' = global_step s + 1
     \<and> (sint (global_step s) < 2 ^ 63 - 1 \<longrightarrow> sint (global_step s') = sint (global_step s) + 1)
     \<and> (\<forall>v\<in>set (trainable_variables (the_backend G)).
          variables s' v =
            (case compute_gradients (the_backend G) (variables s) v of
               None \<Rightarrow> variables s v
             | Some d \<Rightarrow> variables s v - rate * d))
     \<and> (\<forall>v. v \<notin> set (trainable_variables (the_backend G)) \<longrightarrow> variables s' v = variables s v)
     \<and> (\<forall>v. compute_gradients (the_backend G) (variables s) v = None
             \<or> compute_gradients (the_backend G) (variables s) v = Some 0
           \<longrightarrow> variables s' v = variables s v)"
proof -
  from run_step_valid [OF assms]
  obtain s' where r: "run_step G xs s = Inr s'" and g: "global_step s' = global_step s + 1"
    and v: "\<forall>v. variables s' v =
           (if v \<in> set (trainable_variables (the_backend G))
            then descent (the_backend G) rate (variables s) v else variables s v)"
    by blast
  have "sint (global_step s') = sint (global_step s) + 1"
    if "sint (global_step s) < 2 ^ 63 - 1"
    unfolding g using that by (rule increment_fits)
  moreover have "\<forall>v\<in>set (trainable_variables (the_backend G)).
      variables s' v =
        (case compute_gradients (the_backend G) (variables s) v of
           None \<Rightarrow> variables s v
         | Some d \<Rightarrow> variables s v - rate * d)"
    by (simp add: v descent_def)
  moreover have "\<forall>v. v \<notin> set (trainable_variables (the_backend G)) \<longrightarrow>
      variables s' v = variables s v"
    by (simp add: v)
  moreover have "\<forall>v. compute_gradients (the_backend G) (variables s) v = None
             \<or> compute_gradients (the_backend G) (variables s) v = Some 0
           \<longrightarrow> variables s' v = variables s v"
    by (auto simp: v descent_def)
  ultimately show ?thesis
    using r g by blast
qed

theorem training_step_update_witness:
  "\<exists>G s'. train example_externals default_flags example_backend = Inr G
     \<and> valid_schedule (the_backend G) average_last
     \<and> lr G (global_step example_state) = Inr (1 / 1000)
     \<and> run_step G average_last example_state = Inr s'
     \<and> global_step s' = 100001
     \<and> sint (global_step s') = 100001
     \<and> variables s' ''w'' = 999 / 1000
     \<and> variables s' ''b'' = 1"
proof -
  let ?G = "\<lparr>lr = (\<lambda>step. piecewise_constant (num_epoch example_externals default_flags step)
                  [150, 225] [1 / 10, 1 / 100, 1 / 1000]),
          the_backend = example_backend\<rparr>"
  have rate: "lr ?G (global_step example_state) = Inr (1 / 1000)"
    by (simp add: example_state_def example_rate)
  have valid: "valid_schedule (the_backend ?G) average_last"
    by (simp add: valid_examples)
  from training_step_update [OF valid rate]
  obtain s' where "run_step ?G average_last example_state = Inr s'"
    and "global_step s' = global_step example_state + 1"
    and "sint (global_step example_state) < 2 ^ 63 - 1 \<longrightarrow>
          sint (global_step s') = sint (global_step example_state) + 1"
    and "\<forall>v\<in>set (trainable_variables (the_backend ?G)).
          variables s' v =
            (case compute_gradients (the_backend ?G) (variables example_state) v of
               None \<Rightarrow> variables example_state v
             | Some d \<Rightarrow> variables example_state v - (1 / 1000) * d)"
    and "\<forall>v. v \<notin> set (trainable_variables (the_backend ?G)) \<longrightarrow>
          variables s' v = variables example_state v"
    by blast
  then have "run_step ?G average_last example_state = Inr s' \<and> global_step s' = 100001
     \<and> sint (global_step s') = 100001
     \<and> variables s' ''w'' = 999 / 1000 \<and> variables s' ''b'' = 1"
    by (simp add: example_state_def example_backend_def)
  with rate example_train valid show ?thesis
    by blast
qed

text \<open>
  The claim as the specification states it, that a parameter changes if and only if its
  gradient is not zero, fails: with the learning-rate values \<open>0,0,0\<close> the variable \<open>w\<close>
  has gradient 1 and the step leaves it as it was.
\<close>

theorem zero_rate_keeps_parameters:
  "\<exists>G s'. train example_externals (default_flags\<lparr>lr_values := ''0,0,0''\<rparr>) example_backend
       = Inr G
     \<and> valid_schedule (the_backend G) (all_operations (the_backend G))
     \<and> run_step G (all_operations (the_backend G)) example_state = Inr s'
     \<and> global_step s' = global_step example_state + 1
     \<and> ''w'' \<in> set (trainable_variables (the_backend G))
     \<and> compute_gradients (the_backend G) (variables example_state) ''w'' = Some 1
     \<and> variables s' ''w'' = variables example_state ''w''"
proof -
  let ?F = "default_flags\<lparr>lr_values := ''0,0,0''\<rparr>"
  let ?G = "\<lparr>lr = (\<lambda>step. piecewise_constant (num_epoch example_externals ?F step)
                  [150, 225] [0, 0, 0]),
          the_backend = example_backend\<rparr>"
  have "lr_schedule example_externals ?F = Inr ([150, 225], [0, 0, 0])"
    by (simp add: lr_schedule_def example_externals_def default_flags_def example_reader_def)
  then have t: "train example_externals ?F example_backend = Inr ?G"
    by (simp add: train_def fits_int64_def example_externals_def default_flags_def)
  have rate: "lr ?G (global_step example_state) = Inr 0"
    by (simp add: piecewise_constant_def conditions_def num_epoch_def example_externals_def
        default_flags_def example_state_def)
  have valid: "valid_schedule (the_backend ?G) (all_operations (the_backend ?G))"
    by (simp add: valid_examples)
  from run_step_valid [OF valid rate]
  obtain s' where "run_step ?G (all_operations (the_backend ?G)) example_state = Inr s'"
    and "global_step s' = global_step example_state + 1"
    and "\<forall>v. variables s' v =
           (if v \<in> set (trainable_variables (the_backend ?G))
            then descent (the_backend ?G) 0 (variables example_state) v
            else variables example_state v)"
    by blast
  then have "run_step ?G (all_operations (the_backend ?G)) example_state = Inr s'
     \<and> global_step s' = global_step example_state + 1
     \<and> ''w'' \<in> set (trainable_variables (the_backend ?G))
     \<and> compute_gradients (the_backend ?G) (variables example_state) ''w'' = Some 1
     \<and> variables s' ''w'' = variables example_state ''w''"
    by (simp add: descent_def example_backend_def)
  with t valid show ?thesis by blast
qed

text \<open>
  Claim C5, as the code has it. The averaging of a variable waits for the decay only,
  and the decay for nothing: neither is ordered after the update of the variable or
  after the increment of the step counter, only before \<^verbatim>\<open>train_op\<close>. So, in a step
  that starts at a step counter that is not negative, the average of each trainable
  variable moves once towards the value of the variable after its update if the update
  comes before the averaging in the schedule, and towards the value before the update
  otherwise; the decay is \<open>min(0.9999, (1 + n) / (10 + n))\<close>, where \<open>n\<close> is the
  incremented step counter if the increment comes before the reading of the decay, and
  the step counter before the increment otherwise.
\<close>

theorem variables_average_order:
  assumes "valid_schedule (the_backend G) xs" and "lr G (global_step s) = Inr rate"
    and "0 \<le> sint (global_step s)"
  shows "\<exists>s'. run_step G xs s = Inr s'
     \<and> (\<forall>v\<in>set (trainable_variables (the_backend G)).
          variables s' v =
            (case compute_gradients (the_backend G) (variables s) v of
               None \<Rightarrow> variables s v
             | Some d \<Rightarrow> variables s v - rate * d)
        \<and> variable_averages s' v =
            assign_moving_average
              (min (9999 / 10000)
                 (if precedes apply_gradient_op read_decay xs
                  then (1 + real_of_int (sint (global_step s + 1)))
                       / (10 + real_of_int (sint (global_step s + 1)))
                  else (1 + real_of_int (sint (global_step s)))
                       / (10 + real_of_int (sint (global_step s)))))
              (variable_averages s v)
              (if precedes (update_variable v) (average_variable v) xs
               then variables s' v else variables s v))"
proof -
  from run_step_valid [OF assms(1,2)]
  obtain s' where r: "run_step G xs s = Inr s'"
    and v: "\<forall>v. variables s' v =
           (if v \<in> set (trainable_variables (the_backend G))
            then descent (the_backend G) rate (variables s) v else variables s v)"
    and a: "\<forall>v. variable_averages s' v =
           (if v \<in> set (trainable_variables (the_backend G))
            then assign_moving_average
                   (variables_decay
                      (if precedes apply_gradient_op read_decay xs then global_step s + 1
                       else global_step s))
                   (variable_averages s v)
                   (if precedes (update_variable v) (average_variable v) xs
                    then descent (the_backend G) rate (variables s) v else variables s v)
            else variable_averages s v)"
    by blast
  have "\<forall>v\<in>set (trainable_variables (the_backend G)).
          variables s' v =
            (case compute_gradients (the_backend G) (variables s) v of
               None \<Rightarrow> variables s v
             | Some d \<Rightarrow> variables s v - rate * d)
        \<and> variable_averages s' v =
            assign_moving_average
              (min (9999 / 10000)
                 (if precedes apply_gradient_op read_decay xs
                  then (1 + real_of_int (sint (global_step s + 1)))
                       / (10 + real_of_int (sint (global_step s + 1)))
                  else (1 + real_of_int (sint (global_step s)))
                       / (10 + real_of_int (sint (global_step s)))))
              (variable_averages s v)
              (if precedes (update_variable v) (average_variable v) xs
               then variables s' v else variables s v)"
    unfolding a [rule_format] v [rule_format]
    by (simp add: descent_def variables_decay_def MOVING_AVERAGE_DECAY_def)
  with r show ?thesis by blast
qed

theorem variables_average_order_witness:
  "\<exists>G s1 s2 s3. train example_externals default_flags example_backend = Inr G
     \<and> valid_schedule (the_backend G) average_first
     \<and> valid_schedule (the_backend G) average_between
     \<and> valid_schedule (the_backend G) average_last
     \<and> lr G (global_step initial_state) = Inr (1 / 10)
     \<and> 0 \<le> sint (global_step initial_state)
     \<and> run_step G average_first initial_state = Inr s1
     \<and> variables s1 ''w'' = 9 / 10 \<and> variable_averages s1 ''w'' = 1
     \<and> run_step G average_between initial_state = Inr s2
     \<and> variables s2 ''w'' = 9 / 10 \<and> variable_averages s2 ''w'' = 91 / 100
     \<and> run_step G average_last initial_state = Inr s3
     \<and> variables s3 ''w'' = 9 / 10 \<and> variable_averages s3 ''w'' = 101 / 110"
proof -
  let ?G = "\<lparr>lr = (\<lambda>step. piecewise_constant (num_epoch example_externals default_flags step)
                  [150, 225] [1 / 10, 1 / 100, 1 / 1000]),
          the_backend = example_backend\<rparr>"
  have rate: "lr ?G (global_step initial_state) = Inr (1 / 10)"
    by (simp add: initial_state_def example_state_def example_rate_0)
  have step: "0 \<le> sint (global_step initial_state)"
    by (simp add: initial_state_def example_state_def)
  have valid: "valid_schedule (the_backend ?G) average_first"
    "valid_schedule (the_backend ?G) average_between"
    "valid_schedule (the_backend ?G) average_last"
    by (simp_all add: valid_examples)
  have w: "''w'' \<in> set (trainable_variables (the_backend ?G))"
    by (simp add: example_backend_def)
  from variables_average_order [OF valid(1) rate step] w
  obtain s1 where s1: "run_step ?G average_first initial_state = Inr s1"
    "variables s1 ''w'' = 9 / 10" "variable_averages s1 ''w'' = 1"
    by (auto simp: average_first_def initial_state_def example_state_def example_backend_def
        assign_moving_average_def)
  from variables_average_order [OF valid(2) rate step] w
  obtain s2 where s2: "run_step ?G average_between initial_state = Inr s2"
    "variables s2 ''w'' = 9 / 10" "variable_averages s2 ''w'' = 91 / 100"
    by (auto simp: average_between_def initial_state_def example_state_def example_backend_def
        assign_moving_average_def)
  from variables_average_order [OF valid(3) rate step] w
  obtain s3 where s3: "run_step ?G average_last initial_state = Inr s3"
    "variables s3 ''w'' = 9 / 10" "variable_averages s3 ''w'' = 101 / 110"
    by (auto simp: average_last_def initial_state_def example_state_def example_backend_def
        assign_moving_average_def)
  from example_train valid rate step s1 s2 s3 show ?thesis
    by blast
qed

text \<open>
  The claim as the specification states it fails: in the schedule that runs the
  averaging first, at step 100000 (where the decay is 0.9999), the variable \<open>w\<close> goes
  from 1 to 0.999 and its average is computed from 1, the value before the update.
\<close>

theorem average_before_update:
  "\<exists>G s'. train example_externals default_flags example_backend = Inr G
     \<and> valid_schedule (the_backend G) average_first
     \<and> run_step G average_first example_state = Inr s'
     \<and> ''w'' \<in> set (trainable_variables (the_backend G))
     \<and> variables example_state ''w'' = 1
     \<and> variables s' ''w'' = 999 / 1000
     \<and> variable_averages s' ''w'' =
         assign_moving_average (9999 / 10000) (variable_averages example_state ''w'')
           (variables example_state ''w'')
     \<and> variable_averages s' ''w'' \<noteq>
         assign_moving_average (9999 / 10000) (variable_averages example_state ''w'')
           (variables s' ''w'')"
proof -
  let ?G = "\<lparr>lr = (\<lambda>step. piecewise_constant (num_epoch example_externals default_flags step)
                  [150, 225] [1 / 10, 1 / 100, 1 / 1000]),
          the_backend = example_backend\<rparr>"
  have rate: "lr ?G (global_step example_state) = Inr (1 / 1000)"
    by (simp add: example_state_def example_rate)
  have valid: "valid_schedule (the_backend ?G) average_first"
    by (simp add: valid_examples)
  from run_step_valid [OF valid rate]
  obtain s' where r: "run_step ?G average_first example_state = Inr s'"
    and v: "\<forall>v. variables s' v =
           (if v \<in> set (trainable_variables (the_backend ?G))
            then descent (the_backend ?G) (1 / 1000) (variables example_state) v
            else variables example_state v)"
    and a: "\<forall>v. variable_averages s' v =
           (if v \<in> set (trainable_variables (the_backend ?G))
            then assign_moving_average
                   (variables_decay
                      (if precedes apply_gradient_op read_decay average_first
                       then global_step example_state + 1 else global_step example_state))
                   (variable_averages example_state v)
                   (if precedes (update_variable v) (average_variable v) average_first
                    then descent (the_backend ?G) (1 / 1000) (variables example_state) v
                    else variables example_state v)
            else variable_averages example_state v)"
    by blast
  have w: "variables s' ''w'' = 999 / 1000"
    by (simp add: v descent_def example_backend_def example_state_def)
  have "variable_averages s' ''w'' =
      assign_moving_average (9999 / 10000) (variable_averages example_state ''w'')
        (variables example_state ''w'')"
    by (simp add: a average_first_def example_backend_def example_state_def example_decay)
  with r w valid example_train show ?thesis
    by (auto simp: example_state_def example_backend_def assign_moving_average_def)
qed

end
